theory Spec2Isabelle
  imports Main
begin

section \<open>JavaScript values and strings\<close>

text \<open>
  The front end reads paper fields and response fields that may be missing. A field is
  modelled as a \<open>jsval\<close>: \<open>Undefined\<close> (property absent), \<open>Null\<close>, a string or an
  integral number. A string is the list of the bytes of its UTF-8 encoding.
\<close>

datatype jsval = Undefined | Null | Str string | Num int

text \<open>ToBoolean: \<open>undefined\<close>, \<open>null\<close>, \<open>''\<close> and \<open>0\<close> are falsy.\<close>

fun truthy :: "jsval \<Rightarrow> bool" where
  "truthy Undefined = False"
| "truthy Null = False"
| "truthy (Str s) = (s \<noteq> [])"
| "truthy (Num n) = (n \<noteq> 0)"

definition is_Str :: "jsval \<Rightarrow> bool" where
  "is_Str v = (case v of Str _ \<Rightarrow> True | _ \<Rightarrow> False)"

text \<open>\<^verbatim>\<open>a || b\<close>: the left operand when it is truthy, the right operand otherwise.\<close>

definition js_or :: "jsval \<Rightarrow> jsval \<Rightarrow> jsval" where
  "js_or a b = (if truthy a then a else b)"

text \<open>\<^verbatim>\<open>a === b\<close> on these values is structural equality.\<close>

definition strict_eq :: "jsval \<Rightarrow> jsval \<Rightarrow> bool" where
  "strict_eq a b = (a = b)"

text \<open>
  The characters that ECMAScript's \<^verbatim>\<open>trim\<close> and \<^verbatim>\<open>parseInt\<close> strip, each as its UTF-8
  bytes: the white space characters U+0009, U+000B, U+000C, U+FEFF and the space separators
  (U+0020, U+00A0, U+1680, U+2000 to U+200A, U+202F, U+205F, U+3000), and the line
  terminators U+000A, U+000D, U+2028, U+2029.
\<close>

definition white_space :: "string list" where
  "white_space =
     [[CHR 0x09], [CHR 0x0A], [CHR 0x0B], [CHR 0x0C], [CHR 0x0D], [CHR 0x20],
      [CHR 0xC2, CHR 0xA0],
      [CHR 0xE1, CHR 0x9A, CHR 0x80],
      [CHR 0xE2, CHR 0x80, CHR 0x80], [CHR 0xE2, CHR 0x80, CHR 0x81],
      [CHR 0xE2, CHR 0x80, CHR 0x82], [CHR 0xE2, CHR 0x80, CHR 0x83],
      [CHR 0xE2, CHR 0x80, CHR 0x84], [CHR 0xE2, CHR 0x80, CHR 0x85],
      [CHR 0xE2, CHR 0x80, CHR 0x86], [CHR 0xE2, CHR 0x80, CHR 0x87],
      [CHR 0xE2, CHR 0x80, CHR 0x88], [CHR 0xE2, CHR 0x80, CHR 0x89],
      [CHR 0xE2, CHR 0x80, CHR 0x8A],
      [CHR 0xE2, CHR 0x80, CHR 0xA8], [CHR 0xE2, CHR 0x80, CHR 0xA9],
      [CHR 0xE2, CHR 0x80, CHR 0xAF],
      [CHR 0xE2, CHR 0x81, CHR 0x9F],
      [CHR 0xE3, CHR 0x80, CHR 0x80],
      [CHR 0xEF, CHR 0xBB, CHR 0xBF]]"

text \<open>The number of bytes of a UTF-8 character, read off its first byte.\<close>

definition utf8_length :: "char \<Rightarrow> nat" where
  "utf8_length c =
     (let n = (of_char c :: nat)
      in if n < 0x80 then 1 else if n < 0xE0 then 2 else if n < 0xF0 then 3 else 4)"

text \<open>
  \<open>strip ws s\<close> removes from the front of \<open>s\<close> every character of \<open>ws\<close>, until the string
  starts with none of them.
\<close>

function strip :: "string list \<Rightarrow> string \<Rightarrow> string" where
  "strip ws s =
     (case find (\<lambda>w. w \<noteq> [] \<and> take (length w) s = w) ws of
        None \<Rightarrow> s
      | Some w \<Rightarrow> strip ws (drop (length w) s))"
  by pat_completeness auto
termination
proof (relation "measure (\<lambda>(ws, s). length s)")
  show "wf (measure (\<lambda>(ws, s). length s))" by simp
next
  fix ws :: "string list" and s w :: string
  assume "find (\<lambda>w. w \<noteq> [] \<and> take (length w) s = w) ws = Some w"
  then have w: "w \<noteq> []" and t: "take (length w) s = w"
    by (auto simp: find_Some_iff)
  from t have "length (take (length w) s) = length w" by simp
  then have "length w \<le> length s" by simp
  with w show "((ws, drop (length w) s), (ws, s)) \<in> measure (\<lambda>(ws, s). length s)"
    by (cases w) auto
qed

declare strip.simps [simp del]

text \<open>
  \<^verbatim>\<open>String.prototype.trimStart\<close>, \<^verbatim>\<open>trimEnd\<close> and \<^verbatim>\<open>trim\<close>. At the end of a string the
  characters are matched backwards; in UTF-8 a string ends with the bytes of a character
  only if that is its last character.
\<close>

definition trimStart :: "string \<Rightarrow> string" where
  "trimStart s = strip white_space s"

definition trimEnd :: "string \<Rightarrow> string" where
  "trimEnd s = rev (strip (map rev white_space) (rev s))"

definition trim :: "string \<Rightarrow> string" where
  "trim s = trimEnd (trimStart s)"

text \<open>A string made of white space and line terminators only; the empty string is one.\<close>

inductive whitespace_only :: "string \<Rightarrow> bool" where
  empty: "whitespace_only []"
| space: "w \<in> set white_space \<Longrightarrow> whitespace_only s \<Longrightarrow> whitespace_only (w @ s)"

definition lower_char :: "char \<Rightarrow> char" where
  "lower_char c =
     (let n = (of_char c :: nat) in if 65 \<le> n \<and> n \<le> 90 then char_of (n + 32) else c)"

text \<open>
  \<^verbatim>\<open>String.prototype.toLowerCase\<close> on the letters A to Z; the case mapping of the
  characters beyond ASCII is not modelled, and a byte of theirs is left as it is.
\<close>

definition toLowerCase :: "string \<Rightarrow> string" where
  "toLowerCase s = map lower_char s"

definition digit_char :: "nat \<Rightarrow> char" where
  "digit_char d = char_of (48 + d)"

fun digits :: "nat \<Rightarrow> string" where
  "digits n = (if n < 10 then [digit_char n] else digits (n div 10) @ [digit_char (n mod 10)])"

declare digits.simps [simp del]

text \<open>Number to string, as a template literal interpolates an integral number.\<close>

definition string_of_int :: "int \<Rightarrow> string" where
  "string_of_int i = (if i < 0 then CHR ''-'' # digits (nat (- i)) else digits (nat i))"

text \<open>String conversion of a value inside a template literal.\<close>

fun to_string :: "jsval \<Rightarrow> string" where
  "to_string Undefined = ''undefined''"
| "to_string Null = ''null''"
| "to_string (Str s) = s"
| "to_string (Num n) = string_of_int n"

section \<open>services/api.js\<close>

text \<open>
  Every API method issues one POST with the headers
  \<^verbatim>\<open>Content-Type: application/json\<close> and \<^verbatim>\<open>Authorization: Bearer <token>\<close>. A request is
  the endpoint together with the token and the fields of the JSON body.
\<close>

record paper_info =
  info_title :: jsval
  info_authors :: jsval
  info_year :: jsval
  info_abstract :: jsval
  info_url :: jsval
  info_pdf_url :: jsval
  info_externalIds :: "(string \<times> string) list option"

datatype request =
    Search string string int int
      \<comment> \<open>\<^verbatim>\<open>/api/search\<close>: token, \<^verbatim>\<open>query\<close>, \<^verbatim>\<open>page\<close>, \<^verbatim>\<open>page_size\<close>\<close>
  | FetchPaper string jsval jsval paper_info
      \<comment> \<open>\<^verbatim>\<open>/api/fetch-paper\<close>: token, \<^verbatim>\<open>pdf_url\<close>, \<^verbatim>\<open>paper_title\<close>, \<^verbatim>\<open>paper_info\<close>\<close>
  | AskQuestion string jsval string paper_info
      \<comment> \<open>\<^verbatim>\<open>/api/ask-question\<close>: token, \<^verbatim>\<open>pdf_url\<close>, \<^verbatim>\<open>question\<close>, \<^verbatim>\<open>paper_info\<close>\<close>
  | ComparePapers string "jsval list" "paper_info list" string
      \<comment> \<open>\<^verbatim>\<open>/api/compare-papers\<close>: token, \<^verbatim>\<open>paper_ids\<close>, \<^verbatim>\<open>papers_info\<close>, \<^verbatim>\<open>comparison_query\<close>\<close>

text \<open>
  What \<^verbatim>\<open>fetch\<close> and \<^verbatim>\<open>response.json()\<close> give back: the promise of \<^verbatim>\<open>fetch\<close> rejects
  (\<open>NetworkError\<close>), or there is a response with its \<^verbatim>\<open>ok\<close> flag and a body that parses
  as JSON (\<open>Some\<close>) or does not (\<open>None\<close>). A parsed body is taken to be a JSON object.
\<close>

datatype 'a reply = NetworkError | Response bool "'a option"

datatype error =
    Error string          \<comment> \<open>\<^verbatim>\<open>throw new Error(msg)\<close>\<close>
  | TypeError             \<comment> \<open>a method call on a value that has no such method\<close>
  | FetchRejected         \<comment> \<open>the rejection of \<^verbatim>\<open>fetch\<close>\<close>
  | JsonRejected          \<comment> \<open>the rejection of \<^verbatim>\<open>response.json()\<close>\<close>

text \<open>
  The tail shared by every API method:
  \<^verbatim>\<open>if (!response.ok) throw new Error(msg); return response.json();\<close>
\<close>

definition settle :: "string \<Rightarrow> 'a reply \<Rightarrow> error + 'a" where
  "settle msg r =
     (case r of
        NetworkError \<Rightarrow> Inl FetchRejected
      | Response ok body \<Rightarrow>
          if \<not> ok then Inl (Error msg)
          else (case body of None \<Rightarrow> Inl JsonRejected | Some d \<Rightarrow> Inr d))"

subsection \<open>The search cache in localStorage\<close>

text \<open>
  \<open>Entry d t\<close> is an item written by \<open>setCachedData\<close>; \<open>Other\<close> is any item that does
  not parse to an object with a numeric \<^verbatim>\<open>timestamp\<close> (for it \<^verbatim>\<open>JSON.parse\<close> throws or the
  age comparison is false). \<open>quota_exceeded\<close> makes \<^verbatim>\<open>localStorage.setItem\<close> throw.
\<close>

datatype 'd stored = Entry 'd int | Other

record 'd browser =
  storage :: "string \<rightharpoonup> 'd stored"
  now :: int
  quota_exceeded :: bool

definition getCachedData :: "string \<Rightarrow> 'd browser \<Rightarrow> 'd option" where
  "getCachedData key br =
     (case storage br key of
        Some (Entry d t) \<Rightarrow> if now br - t < 3600000 then Some d else None
      | _ \<Rightarrow> None)"

definition setCachedData :: "string \<Rightarrow> 'd \<Rightarrow> 'd browser \<Rightarrow> 'd browser" where
  "setCachedData key d br =
     (if quota_exceeded br then br
      else br\<lparr>storage := (storage br)(key \<mapsto> Entry d (now br))\<rparr>)"

subsection \<open>searchPapers\<close>

text \<open>
  The argument object. \<open>page\<close> and \<open>pageSize\<close> are \<open>None\<close> when the property is
  \<^verbatim>\<open>undefined\<close>, where the destructuring defaults \<open>1\<close> and \<open>5\<close> apply. The destructuring
  pattern names no other property, so \<open>filters\<close> is carried by the caller and never read.
\<close>

record 'f search_args =
  query :: jsval
  page :: "int option"
  pageSize :: "int option"
  filters :: "'f option"

definition page_of :: "'f search_args \<Rightarrow> int" where
  "page_of a = (case page a of None \<Rightarrow> 1 | Some p \<Rightarrow> p)"

definition pageSize_of :: "'f search_args \<Rightarrow> int" where
  "pageSize_of a = (case pageSize a of None \<Rightarrow> 5 | Some p \<Rightarrow> p)"

definition cacheKey :: "'f search_args \<Rightarrow> string" where
  "cacheKey a =
     ''search_'' @ trim (toLowerCase (to_string (query a))) @ ''_''
       @ string_of_int (page_of a) @ ''_'' @ string_of_int (pageSize_of a)"

definition search_request :: "'f search_args \<Rightarrow> string \<Rightarrow> request" where
  "search_request a token = Search token (to_string (query a)) (page_of a) (pageSize_of a)"

text \<open>What a call did to the outside world, in order.\<close>

datatype effect = CacheRead string | CacheWrite string | Http request

text \<open>
  \<open>respond\<close> is the network: the reply to a request. \<open>latency\<close> is the time the awaited
  request takes, so that the entry written afterwards carries the later \<^verbatim>\<open>Date.now()\<close>.
  A truthy \<open>query\<close> that is not a string has no \<^verbatim>\<open>trim\<close> method.
\<close>

definition searchPapers ::
  "'f search_args \<Rightarrow> string \<Rightarrow> (request \<Rightarrow> 'd reply) \<Rightarrow> int \<Rightarrow> 'd browser
     \<Rightarrow> (error + 'd) \<times> 'd browser \<times> effect list" where
  "searchPapers a token respond latency br =
     (if \<not> truthy (query a) then (Inl (Error ''Query is required''), br, [])
      else if \<not> is_Str (query a) then (Inl TypeError, br, [])
      else if trim (to_string (query a)) = [] then (Inl (Error ''Query is required''), br, [])
      else
        (case getCachedData (cacheKey a) br of
           Some cached \<Rightarrow> (Inr cached, br, [CacheRead (cacheKey a)])
         | None \<Rightarrow>
             (let req = search_request a token;
                  br' = br\<lparr>now := now br + latency\<rparr>
              in case settle ''Failed to fetch papers'' (respond req) of
                   Inl e \<Rightarrow> (Inl e, br', [CacheRead (cacheKey a), Http req])
                 | Inr d \<Rightarrow>
                     (Inr d, setCachedData (cacheKey a) d br',
                      [CacheRead (cacheKey a), Http req, CacheWrite (cacheKey a)]))))"

text \<open>
  What a call gives its caller: an exception that the call itself throws, or a promise with
  the way it settles (\<open>Inl\<close>: rejected).
\<close>

datatype 'a outcome = Thrown error | Promised "error + 'a"

text \<open>
  \<open>searchPapers\<close> is declared \<^verbatim>\<open>async\<close>: a call always returns a promise, and what the body
  throws, before its first \<^verbatim>\<open>await\<close> too, rejects that promise.
\<close>

definition searchPapers_call ::
  "'f search_args \<Rightarrow> string \<Rightarrow> (request \<Rightarrow> 'd reply) \<Rightarrow> int \<Rightarrow> 'd browser
     \<Rightarrow> 'd outcome \<times> 'd browser \<times> effect list" where
  "searchPapers_call a token respond latency br =
     (case searchPapers a token respond latency br of
        (settled, br1, effects) \<Rightarrow> (Promised settled, br1, effects))"

subsection \<open>App.jsx: the search call with filters\<close>

text \<open>
  The filter state of the page (the text inputs hold strings) and the payload that
  \<open>buildFilterPayload\<close> makes of it; a property that the function does not set is \<open>None\<close>.
\<close>

record filters_state =
  openAccess :: bool
  yearMin :: string
  yearMax :: string
  minCitations :: string
  venues :: "string list"
  publicationTypes :: "string list"

record filter_payload =
  open_access :: "bool option"
  year_min :: "int option"
  year_max :: "int option"
  min_citations :: "int option"
  payload_venues :: "string list option"
  publication_types :: "string list option"

definition is_digit :: "char \<Rightarrow> bool" where
  "is_digit c = (48 \<le> (of_char c :: nat) \<and> (of_char c :: nat) \<le> 57)"

text \<open>
  \<^verbatim>\<open>parseInt(s, 10)\<close>: leading whitespace, an optional sign, then the longest run of
  digits; \<open>None\<close> is \<^verbatim>\<open>NaN\<close>.
\<close>

definition parseInt :: "string \<Rightarrow> int option" where
  "parseInt s =
     (let t = trimStart s;
          signed = (t \<noteq> [] \<and> (hd t = CHR ''-'' \<or> hd t = CHR ''+''));
          ds = takeWhile is_digit (if signed then tl t else t);
          n = foldl (\<lambda>acc c. 10 * acc + (of_char c - 48)) (0::nat) ds
      in if ds = [] then None
         else if signed \<and> hd t = CHR ''-'' then Some (- int n) else Some (int n))"

definition buildFilterPayload :: "filters_state \<Rightarrow> filter_payload" where
  "buildFilterPayload state =
     \<lparr>open_access = (if openAccess state then Some True else None),
      year_min = parseInt (yearMin state),
      year_max = parseInt (yearMax state),
      min_citations = parseInt (minCitations state),
      payload_venues = (if venues state \<noteq> [] then Some (venues state) else None),
      publication_types =
        (if publicationTypes state \<noteq> [] then Some (publicationTypes state) else None)\<rparr>"

definition PAGE_SIZE :: int where
  "PAGE_SIZE = 5"

text \<open>The argument object that \<open>fetchPapers\<close> passes to \<open>searchPapers\<close>.\<close>

definition fetchPapers_args :: "string \<Rightarrow> int \<Rightarrow> filters_state \<Rightarrow> filter_payload search_args" where
  "fetchPapers_args searchQuery targetPage stateFilters =
     \<lparr>query = Str searchQuery, page = Some targetPage, pageSize = Some PAGE_SIZE,
      filters = Some (buildFilterPayload stateFilters)\<rparr>"

subsection \<open>fetchPaper, askQuestion, comparePapers\<close>

record prepare_result =
  source_type :: jsval

record ask_response =
  answer :: jsval
  answer_source_type :: jsval
  citation :: jsval
  disclaimer :: jsval

record compare_result =
  comparison :: jsval

definition fetchPaper_request :: "jsval \<Rightarrow> jsval \<Rightarrow> paper_info \<Rightarrow> string \<Rightarrow> request" where
  "fetchPaper_request pdfUrl paperTitle paperInfo token = FetchPaper token pdfUrl paperTitle paperInfo"

definition fetchPaper_settle :: "prepare_result reply \<Rightarrow> error + prepare_result" where
  "fetchPaper_settle r = settle ''Failed to fetch paper'' r"

definition askQuestion_request :: "jsval \<Rightarrow> string \<Rightarrow> paper_info \<Rightarrow> string \<Rightarrow> request" where
  "askQuestion_request pdfUrl question paperInfo token = AskQuestion token pdfUrl question paperInfo"

definition askQuestion_settle :: "ask_response reply \<Rightarrow> error + ask_response" where
  "askQuestion_settle r = settle ''Failed to get answer'' r"

definition comparePapers_request ::
  "jsval list \<Rightarrow> paper_info list \<Rightarrow> string \<Rightarrow> string \<Rightarrow> request" where
  "comparePapers_request paperIds papersInfo comparisonQuery token =
     ComparePapers token paperIds papersInfo comparisonQuery"

definition comparePapers_settle :: "compare_result reply \<Rightarrow> error + compare_result" where
  "comparePapers_settle r = settle ''Failed to compare papers'' r"

section \<open>components/ChatModal.jsx\<close>

text \<open>
  A paper as the lists of the front end carry it. \<open>paper_inner\<close> is the property
  \<^verbatim>\<open>paper.paper\<close>, under which an item may wrap the paper (the code reads
  \<^verbatim>\<open>paper.paper?.url\<close>); \<open>None\<close> when it is absent.
\<close>

record inner_paper =
  inner_url :: jsval

record paper =
  url :: jsval
  pdf_url :: jsval
  paper_inner :: "inner_paper option"
  title :: jsval
  authors :: jsval
  year :: jsval
  abstract :: jsval
  external_ids :: "(string \<times> string) list option"
  externalIds :: "(string \<times> string) list option"

text \<open>\<^verbatim>\<open>paper.paper?.url\<close>\<close>

definition inner_url_of :: "paper \<Rightarrow> jsval" where
  "inner_url_of p = (case paper_inner p of None \<Rightarrow> Undefined | Some i \<Rightarrow> inner_url i)"

text \<open>\<^verbatim>\<open>paper.url || paper.pdf_url || paper.paper?.url\<close>\<close>

definition pdfUrl_of :: "paper \<Rightarrow> jsval" where
  "pdfUrl_of p = js_or (js_or (url p) (pdf_url p)) (inner_url_of p)"

text \<open>The \<^verbatim>\<open>paperInfo\<close> object that the chat builds (an object, even empty, is truthy).\<close>

definition chat_paperInfo :: "paper \<Rightarrow> paper_info" where
  "chat_paperInfo p =
     \<lparr>info_title = title p, info_authors = authors p, info_year = year p,
      info_abstract = abstract p, info_url = pdfUrl_of p,
      info_pdf_url = js_or (pdf_url p) (pdfUrl_of p),
      info_externalIds =
        Some (case external_ids p of
                Some ids \<Rightarrow> ids
              | None \<Rightarrow> (case externalIds p of Some ids \<Rightarrow> ids | None \<Rightarrow> []))\<rparr>"

record message =
  role :: string
  content :: jsval
  msg_sourceType :: jsval
  msg_citation :: jsval
  msg_disclaimer :: jsval

definition plain_message :: "string \<Rightarrow> string \<Rightarrow> message" where
  "plain_message r c =
     \<lparr>role = r, content = Str c, msg_sourceType = Undefined, msg_citation = Undefined,
      msg_disclaimer = Undefined\<rparr>"

text \<open>The component's state: one field for each \<^verbatim>\<open>useState\<close>.\<close>

record chat_state =
  messages :: "message list"
  input :: string
  loading :: bool
  paperReady :: bool
  processingPaper :: bool
  sourceType :: jsval

definition initial_chat :: chat_state where
  "initial_chat =
     \<lparr>messages = [], input = [], loading = False, paperReady = False,
      processingPaper = True, sourceType = Null\<rparr>"

subsection \<open>initializePaper\<close>

text \<open>
  The chain of comparisons on \<^verbatim>\<open>result.source_type\<close>, which picks the text
  \<^verbatim>\<open>sourceMsg\<close> (the function computes it and puts it in no message). The page and
  warning signs that open the texts are written as their UTF-8 bytes.
\<close>

definition sourceMsg :: "jsval \<Rightarrow> string" where
  "sourceMsg t =
     (if strict_eq t (Str ''semantic_scholar_pdf'')
      then [CHR 0xF0, CHR 0x9F, CHR 0x93, CHR 0x84]
             @ '' Successfully processed full paper (Semantic Scholar PDF)''
      else if strict_eq t (Str ''arxiv_pdf'')
      then [CHR 0xF0, CHR 0x9F, CHR 0x93, CHR 0x84]
             @ '' Successfully processed full paper (arXiv PDF)''
      else if strict_eq t (Str ''metadata'')
      then [CHR 0xF0, CHR 0x9F, CHR 0x93, CHR 0x8B]
             @ '' Using paper metadata only (abstract + title). Full text not available.''
      else [CHR 0xE2, CHR 0x9A, CHR 0xA0, CHR 0xEF, CHR 0xB8, CHR 0x8F]
             @ '' Limited data available. Will use general knowledge when needed.'')"

definition no_url_notice :: message where
  "no_url_notice =
     plain_message ''system'' ''Sorry, no PDF URL found for this paper. Unable to process.''"

definition prepare_failed_notice :: message where
  "prepare_failed_notice =
     plain_message ''system''
       (''Failed to process the paper. The PDF might not be accessible or there was ''
        @ ''a processing error. You can still try asking questions.'')"

definition ready_message :: "paper \<Rightarrow> jsval \<Rightarrow> message" where
  "ready_message p t =
     \<lparr>role = ''assistant'',
      content = Str (''I'm ready to answer questions about: \"'' @ to_string (title p)
                       @ ''\"\<newline>\<newline>What would you like to know?''),
      msg_sourceType = t, msg_citation = Undefined, msg_disclaimer = Undefined\<rparr>"

text \<open>
  An \<^verbatim>\<open>async\<close> function runs to its \<^verbatim>\<open>await\<close>, gives control back, and goes on when
  the awaited promise settles. Each handler is therefore two functions: \<open>_begin\<close> runs
  up to the request (\<open>None\<close>: it returned without one) and \<open>_resume\<close> runs from the
  settled reply to the end, \<^verbatim>\<open>catch\<close> and \<^verbatim>\<open>finally\<close> included.
\<close>

definition initializePaper_begin :: "paper \<Rightarrow> string \<Rightarrow> chat_state \<Rightarrow> chat_state \<times> request option" where
  "initializePaper_begin p token st =
     (let st1 = st\<lparr>processingPaper := True\<rparr>;
          pdfUrl = pdfUrl_of p
      in if \<not> truthy pdfUrl
         then (st1\<lparr>messages := [no_url_notice], processingPaper := False\<rparr>, None)
         else (st1, Some (fetchPaper_request pdfUrl (title p) (chat_paperInfo p) token)))"

definition initializePaper_resume :: "paper \<Rightarrow> prepare_result reply \<Rightarrow> chat_state \<Rightarrow> chat_state" where
  "initializePaper_resume p r st =
     (case fetchPaper_settle r of
        Inr result \<Rightarrow>
          st\<lparr>sourceType := source_type result, paperReady := True,
             messages := [ready_message p (source_type result)],
             processingPaper := False\<rparr>
      | Inl err \<Rightarrow>
          st\<lparr>messages := [prepare_failed_notice], paperReady := True,
             processingPaper := False\<rparr>)"

subsection \<open>handleSendMessage and quickAsk\<close>

definition send_failed_notice :: message where
  "send_failed_notice = plain_message ''system'' ''Failed to get answer. Please try again.''"

definition quick_failed_notice :: message where
  "quick_failed_notice = plain_message ''system'' ''Failed to get answer. Try again.''"

definition answer_message :: "ask_response \<Rightarrow> message" where
  "answer_message response =
     \<lparr>role = ''assistant'', content = answer response,
      msg_sourceType = answer_source_type response,
      msg_citation = citation response,
      msg_disclaimer = disclaimer response\<rparr>"

definition quick_answer_message :: "ask_response \<Rightarrow> message" where
  "quick_answer_message response =
     \<lparr>role = ''assistant'', content = js_or (answer response) (Str ''No answer.''),
      msg_sourceType = answer_source_type response,
      msg_citation = Undefined,
      msg_disclaimer = disclaimer response\<rparr>"

definition handleSendMessage_begin :: "paper \<Rightarrow> string \<Rightarrow> chat_state \<Rightarrow> chat_state \<times> request option" where
  "handleSendMessage_begin p token st =
     (if trim (input st) = [] \<or> loading st \<or> \<not> paperReady st then (st, None)
      else
        (let userMessage = trim (input st);
             st1 = st\<lparr>input := [],
                      messages := messages st @ [plain_message ''user'' userMessage],
                      loading := True\<rparr>
         in (st1, Some (askQuestion_request (pdfUrl_of p) userMessage (chat_paperInfo p) token))))"

definition handleSendMessage_resume :: "ask_response reply \<Rightarrow> chat_state \<Rightarrow> chat_state" where
  "handleSendMessage_resume r st =
     (case askQuestion_settle r of
        Inr response \<Rightarrow>
          st\<lparr>messages := messages st @ [answer_message response], loading := False\<rparr>
      | Inl err \<Rightarrow>
          st\<lparr>messages := messages st @ [send_failed_notice], loading := False\<rparr>)"

definition quickAsk_begin :: "paper \<Rightarrow> string \<Rightarrow> string \<Rightarrow> chat_state \<Rightarrow> chat_state \<times> request option" where
  "quickAsk_begin p token template st =
     (if loading st \<or> \<not> paperReady st then (st, None)
      else
        (let st1 = st\<lparr>input := [],
                      messages := messages st @ [plain_message ''user'' template],
                      loading := True\<rparr>
         in (st1, Some (askQuestion_request (pdfUrl_of p) template (chat_paperInfo p) token))))"

definition quickAsk_resume :: "ask_response reply \<Rightarrow> chat_state \<Rightarrow> chat_state" where
  "quickAsk_resume r st =
     (case askQuestion_settle r of
        Inr response \<Rightarrow>
          st\<lparr>messages := messages st @ [quick_answer_message response], loading := False\<rparr>
      | Inl err \<Rightarrow>
          st\<lparr>messages := messages st @ [quick_failed_notice], loading := False\<rparr>)"

text \<open>A handler run from its call to its end, the network answering with \<open>respond\<close>.\<close>

definition initializePaper ::
  "(request \<Rightarrow> prepare_result reply) \<Rightarrow> paper \<Rightarrow> string \<Rightarrow> chat_state \<Rightarrow> chat_state \<times> request list" where
  "initializePaper respond p token st =
     (case initializePaper_begin p token st of
        (st1, None) \<Rightarrow> (st1, [])
      | (st1, Some req) \<Rightarrow> (initializePaper_resume p (respond req) st1, [req]))"

definition handleSendMessage ::
  "(request \<Rightarrow> ask_response reply) \<Rightarrow> paper \<Rightarrow> string \<Rightarrow> chat_state \<Rightarrow> chat_state \<times> request list" where
  "handleSendMessage respond p token st =
     (case handleSendMessage_begin p token st of
        (st1, None) \<Rightarrow> (st1, [])
      | (st1, Some req) \<Rightarrow> (handleSendMessage_resume (respond req) st1, [req]))"

definition quickAsk ::
  "(request \<Rightarrow> ask_response reply) \<Rightarrow> paper \<Rightarrow> string \<Rightarrow> string \<Rightarrow> chat_state
     \<Rightarrow> chat_state \<times> request list" where
  "quickAsk respond p token template st =
     (case quickAsk_begin p token template st of
        (st1, None) \<Rightarrow> (st1, [])
      | (st1, Some req) \<Rightarrow> (quickAsk_resume (respond req) st1, [req]))"

subsection \<open>What a message shows\<close>

text \<open>
  The body of the \<^verbatim>\<open>messages.map\<close> in the JSX: the assistant header for an assistant
  message, the content, and the disclaimer box when \<^verbatim>\<open>message.disclaimer\<close> is truthy.
  No element reads \<^verbatim>\<open>message.citation\<close> or \<^verbatim>\<open>message.sourceType\<close>.
\<close>

datatype element = AssistantHeader | Content jsval | DisclaimerBox jsval

definition render_message :: "message \<Rightarrow> element list" where
  "render_message m =
     (if role m = ''assistant'' then [AssistantHeader] else [])
     @ [Content (content m)]
     @ (if truthy (msg_disclaimer m) then [DisclaimerBox (msg_disclaimer m)] else [])"

subsection \<open>The mounted component\<close>

text \<open>
  The component with its calls in flight. The mount effect (dependency list \<^verbatim>\<open>[]\<close>)
  calls \<open>initializePaper\<close> once; afterwards the user types, submits the form or clicks a
  quick suggestion, and the pending promises settle. \<open>preparing\<close> holds while the
  \<open>fetchPaper\<close> promise is pending, \<open>asking\<close> names the handler that awaits
  \<open>askQuestion\<close>.
\<close>

datatype asker = BySend | ByQuick

record modal =
  chat :: chat_state
  preparing :: bool
  asking :: "asker option"

datatype event =
    Change string                          \<comment> \<open>\<^verbatim>\<open>onChange\<close>: \<^verbatim>\<open>setInput(e.target.value)\<close>\<close>
  | Submit                                 \<comment> \<open>\<^verbatim>\<open>onSubmit\<close>: \<open>handleSendMessage\<close>\<close>
  | QuickClick string                      \<comment> \<open>a suggestion button: \<open>quickAsk\<close>\<close>
  | PrepareSettled "prepare_result reply"  \<comment> \<open>the reply to \<open>fetchPaper\<close> arrives\<close>
  | AskSettled "ask_response reply"        \<comment> \<open>the reply to \<open>askQuestion\<close> arrives\<close>

definition mount :: "paper \<Rightarrow> string \<Rightarrow> modal \<times> request list" where
  "mount p token =
     (case initializePaper_begin p token initial_chat of
        (st, None) \<Rightarrow> (\<lparr>chat = st, preparing = False, asking = None\<rparr>, [])
      | (st, Some req) \<Rightarrow> (\<lparr>chat = st, preparing = True, asking = None\<rparr>, [req]))"

fun step :: "paper \<Rightarrow> string \<Rightarrow> modal \<Rightarrow> event \<Rightarrow> modal \<times> request list" where
  "step p token m (Change s) = (m\<lparr>chat := (chat m)\<lparr>input := s\<rparr>\<rparr>, [])"
| "step p token m Submit =
     (case handleSendMessage_begin p token (chat m) of
        (st, None) \<Rightarrow> (m\<lparr>chat := st\<rparr>, [])
      | (st, Some req) \<Rightarrow> (m\<lparr>chat := st, asking := Some BySend\<rparr>, [req]))"
| "step p token m (QuickClick template) =
     (case quickAsk_begin p token template (chat m) of
        (st, None) \<Rightarrow> (m\<lparr>chat := st\<rparr>, [])
      | (st, Some req) \<Rightarrow> (m\<lparr>chat := st, asking := Some ByQuick\<rparr>, [req]))"
| "step p token m (PrepareSettled r) =
     (if preparing m
      then (m\<lparr>chat := initializePaper_resume p r (chat m), preparing := False\<rparr>, [])
      else (m, []))"
| "step p token m (AskSettled r) =
     (case asking m of
        None \<Rightarrow> (m, [])
      | Some BySend \<Rightarrow> (m\<lparr>chat := handleSendMessage_resume r (chat m), asking := None\<rparr>, [])
      | Some ByQuick \<Rightarrow> (m\<lparr>chat := quickAsk_resume r (chat m), asking := None\<rparr>, []))"

text \<open>A run of events from a state: the state reached and the requests sent on the way.\<close>

fun run :: "paper \<Rightarrow> string \<Rightarrow> modal \<Rightarrow> event list \<Rightarrow> modal \<times> request list" where
  "run p token m [] = (m, [])"
| "run p token m (ev # evs) =
     (case step p token m ev of
        (m1, out1) \<Rightarrow> (case run p token m1 evs of (m2, out2) \<Rightarrow> (m2, out1 @ out2)))"

definition is_prepare_settled :: "event \<Rightarrow> bool" where
  "is_prepare_settled ev = (case ev of PrepareSettled _ \<Rightarrow> True | _ \<Rightarrow> False)"

text \<open>
  Two conditions on the mounted component that the proofs carry along a run: a component
  that is ready has had its \<open>fetchPaper\<close> reply, and a component that is neither ready nor
  waiting for a reply stays so.
\<close>

definition ready_inv :: "modal \<Rightarrow> event list \<Rightarrow> bool" where
  "ready_inv m evs \<longleftrightarrow>
     (paperReady (chat m) \<longrightarrow> \<not> preparing m \<and> list_ex is_prepare_settled evs)"

definition quiet :: "modal \<Rightarrow> bool" where
  "quiet m \<longleftrightarrow> \<not> paperReady (chat m) \<and> \<not> preparing m \<and> asking m = None"

section \<open>pages/Dashboard.jsx and App.jsx: comparing papers\<close>

text \<open>
  \<open>toggleSelectForCompare\<close> and \<open>runCompare\<close> are the same text in both files. The state
  holds the three \<^verbatim>\<open>useState\<close> variables they touch; \<open>compareResult\<close> starts as \<^verbatim>\<open>null\<close>.
\<close>

record dash_state =
  selectedForCompare :: "paper list"
  compareLoading :: bool
  compareResult :: "compare_result option"

text \<open>\<^verbatim>\<open>p.url || p.pdf_url\<close>, the key of the selection.\<close>

definition select_key :: "paper \<Rightarrow> jsval" where
  "select_key p = js_or (url p) (pdf_url p)"

definition toggleSelectForCompare :: "paper \<Rightarrow> dash_state \<Rightarrow> dash_state" where
  "toggleSelectForCompare p st =
     (let prev = selectedForCompare st
      in if list_ex (\<lambda>q. strict_eq (select_key q) (select_key p)) prev
         then st\<lparr>selectedForCompare :=
                    filter (\<lambda>q. \<not> strict_eq (select_key q) (select_key p)) prev\<rparr>
         else st\<lparr>selectedForCompare := prev @ [p]\<rparr>)"

text \<open>The \<^verbatim>\<open>paperInfo\<close> object of the comparison: five properties.\<close>

definition compare_paperInfo :: "paper \<Rightarrow> paper_info" where
  "compare_paperInfo p =
     \<lparr>info_title = title p, info_authors = authors p, info_year = year p,
      info_abstract = abstract p, info_url = pdfUrl_of p,
      info_pdf_url = Undefined, info_externalIds = None\<rparr>"

definition comparison_failed :: compare_result where
  "comparison_failed = \<lparr>comparison = Str ''Comparison failed. Please try again.''\<rparr>"

definition valid_papers :: "dash_state \<Rightarrow> paper list" where
  "valid_papers st = filter (\<lambda>p. truthy (pdfUrl_of p)) (selectedForCompare st)"

text \<open>
  \<open>prepared i\<close> is the reply to the \<open>fetchPaper\<close> call for the \<open>i\<close>-th valid paper and
  \<open>compared\<close> the reply to \<open>comparePapers\<close>. The \<^verbatim>\<open>map\<close> starts every \<open>fetchPaper\<close>
  call before \<^verbatim>\<open>Promise.all\<close> is awaited; one rejection rejects the whole and control
  passes to \<^verbatim>\<open>catch\<close>.
\<close>

definition runCompare ::
  "string \<Rightarrow> string \<Rightarrow> (nat \<Rightarrow> prepare_result reply) \<Rightarrow> compare_result reply \<Rightarrow> dash_state
     \<Rightarrow> dash_state \<times> request list" where
  "runCompare comparisonQuery token prepared compared st =
     (let valid = valid_papers st
      in if length valid < 2 then (st, [])
         else
           (let st1 = st\<lparr>compareLoading := True, compareResult := None\<rparr>;
                fetches = map (\<lambda>p. fetchPaper_request (pdfUrl_of p) (title p)
                                      (compare_paperInfo p) token) valid;
                settled = map (\<lambda>i. fetchPaper_settle (prepared i)) [0..<length valid]
            in if list_ex isl settled
               then (st1\<lparr>compareResult := Some comparison_failed, compareLoading := False\<rparr>,
                     fetches)
               else
                 (let paperIds = map pdfUrl_of valid;
                      papersInfo = map compare_paperInfo valid;
                      req = comparePapers_request paperIds papersInfo comparisonQuery token
                  in case comparePapers_settle compared of
                       Inr result \<Rightarrow>
                         (st1\<lparr>compareResult := Some result, compareLoading := False\<rparr>,
                          fetches @ [req])
                     | Inl e \<Rightarrow>
                         (st1\<lparr>compareResult := Some comparison_failed,
                              compareLoading := False\<rparr>,
                          fetches @ [req]))))"

text \<open>The requests of a comparison: one \<open>fetchPaper\<close> for each paper, then \<open>comparePapers\<close>.\<close>

definition fetch_requests :: "string \<Rightarrow> paper list \<Rightarrow> request list" where
  "fetch_requests token ps =
     map (\<lambda>p. fetchPaper_request (pdfUrl_of p) (title p) (compare_paperInfo p) token) ps"

definition compare_request :: "string \<Rightarrow> string \<Rightarrow> paper list \<Rightarrow> request" where
  "compare_request comparisonQuery token ps =
     comparePapers_request (map pdfUrl_of ps) (map compare_paperInfo ps) comparisonQuery token"

section \<open>The question-answering engine behind the endpoints\<close>

text \<open>
  The handlers of \<^verbatim>\<open>/api/fetch-paper\<close> and \<^verbatim>\<open>/api/ask-question\<close> (the README's
  \<^verbatim>\<open>rag/rag_pipeline.py\<close>) are not among the sources. What the claims say about them is
  settled on the following model of the specification's sections 3 and 4. The external
  capabilities (fetching and extracting text, chunking, embedding, similarity, generation)
  are parameters, collected in \<open>world\<close>.
\<close>

text \<open>Modelled from the spec: the four values of \<^verbatim>\<open>SourceRecord.source_type\<close> (section 3).\<close>

datatype source_type =
  Full_text_pdf_primary | Full_text_pdf_secondary | Metadata_only | Unavailable

text \<open>Modelled from the spec: \<^verbatim>\<open>PaperReference\<close> (section 3); an absent field is the empty string.\<close>

record paper_reference =
  ref_title :: string
  ref_authors :: string
  ref_year :: string
  ref_abstract :: string
  ref_source_url :: string

text \<open>Modelled from the spec: \<^verbatim>\<open>SourceRecord\<close> (section 3).\<close>

record source_record =
  rec_paper_id :: nat
  rec_source_type :: source_type
  rec_raw_text :: "string option"

text \<open>Modelled from the spec: \<^verbatim>\<open>Chunk\<close> (section 3), without the character span.\<close>

record chunk =
  chunk_index :: nat
  chunk_text :: string

text \<open>
  Modelled from the spec: the capabilities the engine consumes (sections 4.1 to 4.5 and 6):
  the derivation of a \<^verbatim>\<open>PaperId\<close> from the URL, the two full-text sources in priority
  order (\<open>None\<close>: unreachable or without extractable text), the chunker, the embedding
  provider (\<open>None\<close>: the batch fails), the similarity of two vectors, \<^verbatim>\<open>top_k\<close>, and the
  generation capability (\<open>None\<close>: timeout or malformed response).
\<close>

record world =
  paper_id_of :: "string \<Rightarrow> nat"
  primary_text :: "string \<Rightarrow> string option"
  secondary_text :: "string \<Rightarrow> string option"
  chunker :: "string \<Rightarrow> chunk list"
  embed :: "string list \<Rightarrow> int list list option"
  similarity :: "int list \<Rightarrow> int list \<Rightarrow> int"
  top_k :: nat
  generate :: "string \<Rightarrow> string option"

text \<open>Modelled from the spec: the error taxonomy of section 7 that reaches a caller.\<close>

datatype engine_error = EmbeddingFailure | NotReady | GenerationFailed

text \<open>
  Modelled from the spec: \<^verbatim>\<open>resolve\<close> of the Source Resolver (section 4.1). The sources
  are tried in priority order and the first with text wins; when all fail, a non-empty
  abstract gives \<open>Metadata_only\<close> with title and abstract as the text; otherwise
  \<open>Unavailable\<close>. Without a URL no source can be tried.
\<close>

definition resolve :: "world \<Rightarrow> paper_reference \<Rightarrow> source_record" where
  "resolve w r =
     (let u = ref_source_url r; pid = paper_id_of w u
      in case (if u = [] then None else primary_text w u) of
           Some t \<Rightarrow>
             \<lparr>rec_paper_id = pid, rec_source_type = Full_text_pdf_primary, rec_raw_text = Some t\<rparr>
         | None \<Rightarrow>
             (case (if u = [] then None else secondary_text w u) of
                Some t \<Rightarrow>
                  \<lparr>rec_paper_id = pid, rec_source_type = Full_text_pdf_secondary,
                   rec_raw_text = Some t\<rparr>
              | None \<Rightarrow>
                  if ref_abstract r \<noteq> []
                  then \<lparr>rec_paper_id = pid, rec_source_type = Metadata_only,
                        rec_raw_text = Some (ref_title r @ '' '' @ ref_abstract r)\<rparr>
                  else \<lparr>rec_paper_id = pid, rec_source_type = Unavailable,
                        rec_raw_text = None\<rparr>))"

text \<open>
  Modelled from the spec: \<^verbatim>\<open>VectorIndex\<close> (section 3): the chunks of one paper with their
  vectors, in chunk order. A degenerate index (section 4.4) has no vectors and holds the
  synthetic text, if any.
\<close>

record vector_index =
  idx_source_type :: source_type
  idx_entries :: "(chunk \<times> int list) list"
  idx_synthetic :: "string option"

text \<open>
  Modelled from the spec: the state of the Vector Store Manager (section 4.4), the map from
  \<^verbatim>\<open>PaperId\<close> to index, with the build counter of the idempotence property (section 8).
\<close>

record manager =
  indices :: "nat \<rightharpoonup> vector_index"
  builds :: nat

text \<open>
  Modelled from the spec: the degenerate handle of section 4.4, for a record without full
  text.
\<close>

definition degenerate_index :: "source_type \<Rightarrow> string option \<Rightarrow> vector_index" where
  "degenerate_index t txt = \<lparr>idx_source_type = t, idx_entries = [], idx_synthetic = txt\<rparr>"

text \<open>
  Modelled from the spec: \<^verbatim>\<open>ensure_index\<close> (section 4.4). An index that exists is
  returned. Otherwise a record without full text gets a degenerate index, with no chunking
  and no embedding; full text is chunked, zero chunks are treated as metadata-only, and the
  chunks are embedded as one batch, whose failure fails the build and stores nothing. A
  completed build counts.
\<close>

definition ensure_index ::
  "world \<Rightarrow> nat \<Rightarrow> source_record \<Rightarrow> manager \<Rightarrow> (engine_error + vector_index) \<times> manager" where
  "ensure_index w pid sr mg =
     (case indices mg pid of
        Some h \<Rightarrow> (Inr h, mg)
      | None \<Rightarrow>
          (let store = (\<lambda>h. mg\<lparr>indices := (indices mg)(pid \<mapsto> h)\<rparr>)
           in if rec_source_type sr = Metadata_only \<or> rec_source_type sr = Unavailable
              then (let h = degenerate_index (rec_source_type sr) (rec_raw_text sr)
                    in (Inr h, store h))
              else
                (let cs = (case rec_raw_text sr of None \<Rightarrow> [] | Some t \<Rightarrow> chunker w t)
                 in if cs = []
                    then (let h = degenerate_index Metadata_only (rec_raw_text sr)
                          in (Inr h, store h))
                    else
                      (case embed w (map chunk_text cs) of
                         None \<Rightarrow> (Inl EmbeddingFailure, mg)
                       | Some vs \<Rightarrow>
                           (let h = \<lparr>idx_source_type = rec_source_type sr,
                                     idx_entries = zip cs vs, idx_synthetic = None\<rparr>
                            in (Inr h, (store h)\<lparr>builds := Suc (builds mg)\<rparr>))))))"

text \<open>Modelled from the spec: the result of \<^verbatim>\<open>prepare\<close> (section 6).\<close>

record prepared =
  prep_source_type :: source_type
  prep_ready :: bool

text \<open>
  Modelled from the spec: \<^verbatim>\<open>prepare\<close> (sections 2 and 6): resolve the source, then build
  or reuse the index.
\<close>

definition prepare ::
  "world \<Rightarrow> paper_reference \<Rightarrow> manager \<Rightarrow> (engine_error + prepared) \<times> manager" where
  "prepare w r mg =
     (let sr = resolve w r
      in case ensure_index w (rec_paper_id sr) sr mg of
           (Inl e, mg1) \<Rightarrow> (Inl e, mg1)
         | (Inr h, mg1) \<Rightarrow>
             (Inr \<lparr>prep_source_type = idx_source_type h, prep_ready = True\<rparr>, mg1))"

text \<open>
  Modelled from the spec: \<^verbatim>\<open>query\<close> (section 4.4). A degenerate index answers with its
  synthetic text whatever \<^verbatim>\<open>top_k\<close> is; otherwise the chunks are ranked by similarity to
  the question's vector, highest first, ties in chunk order (the sort is stable), and the
  first \<^verbatim>\<open>top_k\<close> are returned.
\<close>

definition query_index :: "world \<Rightarrow> vector_index \<Rightarrow> string \<Rightarrow> chunk list" where
  "query_index w h question =
     (if idx_entries h = []
      then (case idx_synthetic h of
              None \<Rightarrow> []
            | Some t \<Rightarrow> [\<lparr>chunk_index = 0, chunk_text = t\<rparr>])
      else
        (case embed w [question] of
           Some [qv] \<Rightarrow>
             map fst (take (top_k w)
                        (sort_key (\<lambda>(c, v). - similarity w qv v) (idx_entries h)))
         | _ \<Rightarrow> []))"

text \<open>Modelled from the spec: the result of \<^verbatim>\<open>answer\<close> (section 4.5).\<close>

record engine_answer =
  answer_text :: string
  answer_citation :: "nat list option"
  answer_disclaimer :: "string option"

text \<open>
  Modelled from the spec: the state \<^verbatim>\<open>ready(degraded)\<close> of section 4.5, metadata-only or
  unavailable.
\<close>

definition degraded :: "vector_index \<Rightarrow> bool" where
  "degraded h \<longleftrightarrow> idx_source_type h = Metadata_only \<or> idx_source_type h = Unavailable"

text \<open>
  Modelled from the spec: \<^verbatim>\<open>answer\<close> of the Answer Engine (section 4.5). A paper without
  an index is not ready. The retrieved text and the question make the prompt; in the
  degraded state the disclaimer is set and the citation omitted; with full text the
  citation names the chunks that were retrieved. A generation failure fails the turn and
  leaves the manager as it was.
\<close>

definition engine_answer_question ::
  "world \<Rightarrow> nat \<Rightarrow> string \<Rightarrow> manager \<Rightarrow> engine_error + engine_answer" where
  "engine_answer_question w pid question mg =
     (case indices mg pid of
        None \<Rightarrow> Inl NotReady
      | Some h \<Rightarrow>
          (let retrieved = query_index w h question;
               prompt = concat (map chunk_text retrieved) @ question
           in case generate w prompt of
                None \<Rightarrow> Inl GenerationFailed
              | Some txt \<Rightarrow>
                  Inr \<lparr>answer_text = txt,
                       answer_citation =
                         (if degraded h then None else Some (map chunk_index retrieved)),
                       answer_disclaimer =
                         (if degraded h then Some ''limited data available'' else None)\<rparr>))"

subsection \<open>The two endpoints\<close>

text \<open>
  Modelled from the spec: the tag of a source type in a response. The three tags the
  front end compares against are taken from \<open>sourceMsg\<close>; the tag of \<open>Unavailable\<close> is the
  specification's word.
\<close>

fun wire_name :: "source_type \<Rightarrow> string" where
  "wire_name Full_text_pdf_primary = ''semantic_scholar_pdf''"
| "wire_name Full_text_pdf_secondary = ''arxiv_pdf''"
| "wire_name Metadata_only = ''metadata''"
| "wire_name Unavailable = ''unavailable''"

text \<open>
  Modelled from the spec: a field of a request body as the engine reads it; a missing or
  empty field is the empty string.
\<close>

definition text_of :: "jsval \<Rightarrow> string" where
  "text_of v = (if truthy v then to_string v else [])"

text \<open>Modelled from the spec: the \<^verbatim>\<open>PaperReference\<close> that a request body carries.\<close>

definition reference_of :: "jsval \<Rightarrow> paper_info \<Rightarrow> paper_reference" where
  "reference_of pdfUrl info =
     \<lparr>ref_title = text_of (info_title info), ref_authors = text_of (info_authors info),
      ref_year = text_of (info_year info), ref_abstract = text_of (info_abstract info),
      ref_source_url = text_of pdfUrl\<rparr>"

text \<open>
  Modelled from the spec: \<^verbatim>\<open>/api/fetch-paper\<close> as \<^verbatim>\<open>prepare\<close> (section 6). A failure of
  the build is a response that is not \<^verbatim>\<open>ok\<close>.
\<close>

definition fetch_paper_endpoint ::
  "world \<Rightarrow> request \<Rightarrow> manager \<Rightarrow> prepare_result reply \<times> manager" where
  "fetch_paper_endpoint w req mg =
     (case req of
        FetchPaper token pdfUrl paperTitle info \<Rightarrow>
          (case prepare w (reference_of pdfUrl info) mg of
             (Inl e, mg1) \<Rightarrow> (Response False None, mg1)
           | (Inr res, mg1) \<Rightarrow>
               (Response True (Some \<lparr>source_type = Str (wire_name (prep_source_type res))\<rparr>),
                mg1))
      | _ \<Rightarrow> (Response False None, mg))"

text \<open>
  Modelled from the spec: the response body of \<^verbatim>\<open>ask\<close> (section 6); \<^verbatim>\<open>citation\<close> and
  \<^verbatim>\<open>disclaimer\<close> are optional and left out when the engine gives none.
\<close>

definition encode_answer :: "source_type \<Rightarrow> engine_answer \<Rightarrow> ask_response" where
  "encode_answer t a =
     \<lparr>answer = Str (answer_text a),
      answer_source_type = Str (wire_name t),
      citation = (case answer_citation a of
                    None \<Rightarrow> Undefined
                  | Some ns \<Rightarrow> Str (concat (map (\<lambda>n. ''['' @ digits n @ '']'') ns))),
      disclaimer = (case answer_disclaimer a of None \<Rightarrow> Undefined | Some d \<Rightarrow> Str d)\<rparr>"

text \<open>
  Modelled from the spec: \<^verbatim>\<open>/api/ask-question\<close> as \<^verbatim>\<open>ask\<close> (section 6). \<^verbatim>\<open>NotReady\<close> and
  \<^verbatim>\<open>GenerationFailed\<close> are responses that are not \<^verbatim>\<open>ok\<close>.
\<close>

definition ask_question_endpoint ::
  "world \<Rightarrow> request \<Rightarrow> manager \<Rightarrow> ask_response reply" where
  "ask_question_endpoint w req mg =
     (case req of
        AskQuestion token pdfUrl question info \<Rightarrow>
          (let pid = paper_id_of w (text_of pdfUrl)
           in case engine_answer_question w pid question mg of
                Inl e \<Rightarrow> Response False None
              | Inr a \<Rightarrow>
                  (case indices mg pid of
                     None \<Rightarrow> Response False None
                   | Some h \<Rightarrow> Response True (Some (encode_answer (idx_source_type h) a))))
      | _ \<Rightarrow> Response False None)"

section \<open>Example data\<close>

text \<open>
  The papers of the examples: a search result with a URL and an abstract (the reference of
  the specification's end-to-end scenario), a second result with a PDF link only, an item
  that wraps the first paper under \<^verbatim>\<open>paper\<close>, and a paper with a title and nothing else.
\<close>

definition bare_paper :: paper where
  "bare_paper =
     \<lparr>url = Undefined, pdf_url = Undefined, paper_inner = None, title = Undefined,
      authors = Undefined, year = Undefined, abstract = Undefined, external_ids = None,
      externalIds = None\<rparr>"

definition example_paper_a :: paper where
  "example_paper_a =
     bare_paper\<lparr>url := Str ''http://x/a.pdf'', title := Str ''A'',
                abstract := Str ''Studies X.''\<rparr>"

definition example_paper_b :: paper where
  "example_paper_b =
     bare_paper\<lparr>pdf_url := Str ''http://x/b.pdf'', title := Str ''B'', year := Num 2024\<rparr>"

definition example_wrapped_a :: paper where
  "example_wrapped_a =
     bare_paper\<lparr>paper_inner := Some \<lparr>inner_url = Str ''http://x/a.pdf''\<rparr>,
                title := Str ''A''\<rparr>"

definition example_untitled :: paper where
  "example_untitled = bare_paper\<lparr>title := Str ''C''\<rparr>"

definition empty_dash :: dash_state where
  "empty_dash = \<lparr>selectedForCompare = [], compareLoading = False, compareResult = None\<rparr>"

definition one_selected :: dash_state where
  "one_selected = toggleSelectForCompare example_paper_a empty_dash"

definition two_selected :: dash_state where
  "two_selected = toggleSelectForCompare example_paper_b one_selected"

definition same_paper_twice :: dash_state where
  "same_paper_twice = toggleSelectForCompare example_wrapped_a one_selected"

definition metadata_reply :: "prepare_result reply" where
  "metadata_reply = Response True (Some \<lparr>source_type = Str ''metadata''\<rparr>)"

definition every_prepared :: "nat \<Rightarrow> prepare_result reply" where
  "every_prepared i = metadata_reply"

definition synthesis_reply :: "compare_result reply" where
  "synthesis_reply = Response True (Some \<lparr>comparison = Str ''A studies X; B does not.''\<rparr>)"

definition answer_reply :: "ask_response reply" where
  "answer_reply =
     Response True
       (Some \<lparr>answer = Str ''It studies X.'', answer_source_type = Str ''metadata'',
              citation = Undefined, disclaimer = Str ''limited data available''\<rparr>)"

definition server_error :: "'a reply" where
  "server_error = Response False None"

definition ready_modal :: modal where
  "ready_modal =
     fst (run example_paper_a ''tok'' (fst (mount example_paper_a ''tok''))
            [PrepareSettled metadata_reply])"

definition empty_browser :: "string list browser" where
  "empty_browser = \<lparr>storage = Map.empty, now = 0, quota_exceeded = False\<rparr>"

definition search_backend :: "request \<Rightarrow> string list reply" where
  "search_backend req = Response True (Some [''A'', ''B''])"

definition default_filters :: filters_state where
  "default_filters =
     \<lparr>openAccess = False, yearMin = [], yearMax = [], minCitations = [], venues = [],
      publicationTypes = []\<rparr>"

definition recent_open_filters :: filters_state where
  "recent_open_filters = default_filters\<lparr>openAccess := True, yearMin := ''2020''\<rparr>"

definition plain_args :: "bool search_args" where
  "plain_args = \<lparr>query = Str ''Deep Learning'', page = Some 2, pageSize = None, filters = None\<rparr>"

definition filtered_args :: "bool search_args" where
  "filtered_args = plain_args\<lparr>filters := Some True\<rparr>"

definition blank_args :: "bool search_args" where
  "blank_args = plain_args\<lparr>query := Str [CHR 0xC2, CHR 0xA0, CHR 0x20]\<rparr>"

text \<open>
  A world in which the first paper's PDF cannot be fetched and the second one's can, with
  one chunk for each text, the length of a text as its vector, and a generator that echoes
  its prompt.
\<close>

definition example_paper_id :: "string \<Rightarrow> nat" where
  "example_paper_id u = (if u = ''http://x/a.pdf'' then 10 else 20)"

definition unreachable :: "string \<Rightarrow> string option" where
  "unreachable u = None"

definition example_primary :: "string \<Rightarrow> string option" where
  "example_primary u = (if u = ''http://x/b.pdf'' then Some ''Methods. Results.'' else None)"

definition example_chunker :: "string \<Rightarrow> chunk list" where
  "example_chunker t = (if t = [] then [] else [\<lparr>chunk_index = 0, chunk_text = t\<rparr>])"

definition example_embed :: "string list \<Rightarrow> int list list option" where
  "example_embed ts = Some (map (\<lambda>t. [int (length t)]) ts)"

definition example_similarity :: "int list \<Rightarrow> int list \<Rightarrow> int" where
  "example_similarity a b = - \<bar>sum_list a - sum_list b\<bar>"

definition example_generate :: "string \<Rightarrow> string option" where
  "example_generate prompt = Some (''It says: '' @ prompt)"

definition example_world :: world where
  "example_world =
     \<lparr>paper_id_of = example_paper_id, primary_text = example_primary, secondary_text = unreachable,
      chunker = example_chunker, embed = example_embed, similarity = example_similarity,
      top_k = 4, generate = example_generate\<rparr>"

definition fresh_manager :: manager where
  "fresh_manager = \<lparr>indices = Map.empty, builds = 0\<rparr>"

section \<open>Strings\<close>

lemma white_space_length:
  "w \<in> set white_space \<Longrightarrow> w \<noteq> [] \<and> length w = utf8_length (hd w)"
  by (auto simp: white_space_def utf8_length_def)

lemma white_space_prefix:
  assumes w: "w \<in> set white_space" and w': "w' \<in> set white_space"
      and t: "take (length w') (w @ s) = w'"
  shows "w' = w"
proof -
  from white_space_length [OF w] white_space_length [OF w']
  have ne: "w \<noteq> []" "w' \<noteq> []"
    and l: "length w = utf8_length (hd w)" "length w' = utf8_length (hd w')"
    by simp_all
  from ne have "hd (take (length w') (w @ s)) = hd w"
    by (cases w; cases w') simp_all
  with t have "hd w' = hd w" by simp
  with l have "length w' = length w" by simp
  with t show ?thesis by simp
qed

lemma strip_Nil: "strip ws [] = []"
proof -
  have "find (\<lambda>w. w \<noteq> [] \<and> take (length w) [] = w) ws = None"
    by (auto simp: find_None_iff)
  then show ?thesis by (subst strip.simps) simp
qed

lemma strip_white_space:
  assumes w: "w \<in> set white_space"
  shows "strip white_space (w @ s) = strip white_space s"
proof -
  let ?P = "\<lambda>v. v \<noteq> [] \<and> take (length v) (w @ s) = v"
  from white_space_length [OF w] have pw: "?P w" by simp
  have "find ?P white_space \<noteq> None"
    unfolding find_None_iff using w pw by blast
  then obtain v where f: "find ?P white_space = Some v" by blast
  from f have v: "v \<in> set white_space" and t: "take (length v) (w @ s) = v"
    unfolding find_Some_iff by auto
  from white_space_prefix [OF w v t] have vw: "v = w" .
  have "strip white_space (w @ s) =
      (case find ?P white_space of
         None \<Rightarrow> w @ s
       | Some v \<Rightarrow> strip white_space (drop (length v) (w @ s)))"
    by (rule strip.simps)
  also have "\<dots> = strip white_space (drop (length w) (w @ s))"
    by (simp only: f vw option.case)
  also have "\<dots> = strip white_space s" by simp
  finally show ?thesis .
qed

lemma trim_whitespace_only: "whitespace_only s \<Longrightarrow> trim s = []"
proof -
  assume "whitespace_only s"
  then have "strip white_space s = []"
    by (induction rule: whitespace_only.induct) (simp_all add: strip_Nil strip_white_space)
  then show ?thesis by (simp add: trim_def trimStart_def trimEnd_def strip_Nil)
qed

lemma trim_examples:
  "trim ''Why?'' = ''Why?''" "trim ''What?'' = ''What?''"
  by code_simp+

section \<open>Searching\<close>

text \<open>
  C10, as the code has it. When \<open>query\<close> is absent (\<^verbatim>\<open>undefined\<close> or \<^verbatim>\<open>null\<close>), empty or
  made of white space only, the call of \<open>searchPapers\<close> fails with the error
  \<^verbatim>\<open>Query is required\<close> before anything else happens: the list of effects is empty, so
  the cache was not read and no request was sent, and the browser state, which holds the
  cache, is the one the call started with. The function being \<^verbatim>\<open>async\<close>, the caller gets
  the error as the rejection of the promise that the call returns.
\<close>

theorem searchPapers_requires_query:
  assumes "query a = Undefined \<or> query a = Null
           \<or> (\<exists>s. query a = Str s \<and> whitespace_only s)"
  shows "searchPapers a token respond latency br = (Inl (Error ''Query is required''), br, [])
       \<and> searchPapers_call a token respond latency br
           = (Promised (Inl (Error ''Query is required'')), br, [])"
proof -
  have "searchPapers a token respond latency br = (Inl (Error ''Query is required''), br, [])"
    using assms by (auto simp: searchPapers_def is_Str_def trim_whitespace_only)
  then show ?thesis by (simp add: searchPapers_call_def)
qed

theorem searchPapers_requires_query_witness:
  "whitespace_only [CHR 0xC2, CHR 0xA0, CHR 0x20]
   \<and> searchPapers blank_args ''tok'' search_backend 40 empty_browser
       = (Inl (Error ''Query is required''), empty_browser, [])
   \<and> searchPapers_call blank_args ''tok'' search_backend 40 empty_browser
       = (Promised (Inl (Error ''Query is required'')), empty_browser, [])"
proof -
  have b: "whitespace_only [CHR 0xC2, CHR 0xA0, CHR 0x20]"
    using whitespace_only.space [of "[CHR 0xC2, CHR 0xA0]" "[CHR 0x20]"]
      whitespace_only.space [of "[CHR 0x20]" "[]"] whitespace_only.empty
    by (simp add: white_space_def)
  then have "\<exists>s. query blank_args = Str s \<and> whitespace_only s"
    by (simp add: blank_args_def plain_args_def)
  then show ?thesis
    using searchPapers_requires_query [of blank_args "''tok''" search_backend 40 empty_browser] b
    by simp
qed

text \<open>
  The claim C10 as it is stated fails in one word: the call does not throw. For a query of
  a no-break space and a space the caller receives a promise, rejected with the error
  \<^verbatim>\<open>Query is required\<close>, and no exception.
\<close>

theorem searchPapers_throws_counterexample:
  "fst (searchPapers_call blank_args ''tok'' search_backend 40 empty_browser)
     = Promised (Inl (Error ''Query is required''))
   \<and> fst (searchPapers_call blank_args ''tok'' search_backend 40 empty_browser)
     \<noteq> Thrown (Error ''Query is required'')"
proof -
  have "trim [CHR 0xC2, CHR 0xA0, CHR 0x20] = []" by code_simp
  then show ?thesis
    by (simp add: searchPapers_call_def searchPapers_def blank_args_def plain_args_def
        is_Str_def)
qed

text \<open>
  C9. Two calls of \<open>searchPapers\<close> whose \<open>query\<close>, \<open>page\<close> and \<open>pageSize\<close> agree build
  the same request and the same cache key and, with the same token, network and browser
  state, give the same result, the same new browser state and the same effects, whatever
  the two \<open>filters\<close> are (they may even be of different types). So the search that
  \<open>fetchPapers\<close> starts is the same for every state of the page's filters.
\<close>

theorem searchPapers_ignores_filters:
  fixes a :: "'f search_args" and b :: "'g search_args"
  assumes "query a = query b" and "page a = page b" and "pageSize a = pageSize b"
  shows "search_request a token = search_request b token
       \<and> cacheKey a = cacheKey b
       \<and> searchPapers a token respond latency br = searchPapers b token respond latency br
       \<and> searchPapers (fetchPapers_args searchQuery targetPage f1) token respond latency br
           = searchPapers (fetchPapers_args searchQuery targetPage f2) token respond latency br"
proof -
  have same: "search_request x token = search_request y token \<and> cacheKey x = cacheKey y
      \<and> searchPapers x token respond latency br = searchPapers y token respond latency br"
    if q: "query x = query y" and pg: "page x = page y" and ps: "pageSize x = pageSize y"
    for x :: "'x search_args" and y :: "'y search_args"
  proof -
    have req: "search_request x token = search_request y token"
      using q pg ps by (simp add: search_request_def page_of_def pageSize_of_def)
    have key: "cacheKey x = cacheKey y"
      using q pg ps by (simp add: cacheKey_def page_of_def pageSize_of_def)
    have "searchPapers x token respond latency br = searchPapers y token respond latency br"
      by (simp only: searchPapers_def q req key)
    with req key show ?thesis by simp
  qed
  have "searchPapers (fetchPapers_args searchQuery targetPage f1) token respond latency br
      = searchPapers (fetchPapers_args searchQuery targetPage f2) token respond latency br"
    by (intro same [THEN conjunct2, THEN conjunct2]) (simp_all add: fetchPapers_args_def)
  with same [OF assms] show ?thesis by simp
qed

theorem searchPapers_ignores_filters_witness:
  "filters plain_args \<noteq> filters filtered_args
   \<and> search_request plain_args ''tok'' = search_request filtered_args ''tok''
   \<and> cacheKey plain_args = cacheKey filtered_args
   \<and> searchPapers plain_args ''tok'' search_backend 40 empty_browser
       = searchPapers filtered_args ''tok'' search_backend 40 empty_browser
   \<and> buildFilterPayload default_filters \<noteq> buildFilterPayload recent_open_filters
   \<and> searchPapers (fetchPapers_args ''Deep Learning'' 2 default_filters) ''tok''
         search_backend 40 empty_browser
       = searchPapers (fetchPapers_args ''Deep Learning'' 2 recent_open_filters) ''tok''
         search_backend 40 empty_browser"
proof -
  have p: "buildFilterPayload default_filters \<noteq> buildFilterPayload recent_open_filters"
    by (simp add: buildFilterPayload_def default_filters_def recent_open_filters_def)
  have h: "query plain_args = query filtered_args" "page plain_args = page filtered_args"
    "pageSize plain_args = pageSize filtered_args"
    by (simp_all add: filtered_args_def)
  have "filters plain_args \<noteq> filters filtered_args"
    by (simp add: filtered_args_def plain_args_def)
  then show ?thesis
    using searchPapers_ignores_filters [OF h, of "''tok''" search_backend 40 empty_browser
        "''Deep Learning''" 2 default_filters recent_open_filters] p
    by simp
qed


section \<open>The chat\<close>

lemmas example_paper_defs =
  bare_paper_def example_paper_a_def example_paper_b_def example_wrapped_a_def
  example_untitled_def pdfUrl_of_def inner_url_of_def js_or_def

lemmas example_reply_defs =
  metadata_reply_def answer_reply_def server_error_def fetchPaper_settle_def
  askQuestion_settle_def settle_def

lemma mount_no_url:
  "\<not> truthy (pdfUrl_of p) \<Longrightarrow>
     mount p token =
       (\<lparr>chat = initial_chat\<lparr>messages := [no_url_notice], processingPaper := False\<rparr>,
         preparing = False, asking = None\<rparr>, [])"
  by (simp add: mount_def initializePaper_begin_def initial_chat_def Let_def)

lemma mount_url:
  "truthy (pdfUrl_of p) \<Longrightarrow>
     mount p token =
       (\<lparr>chat = initial_chat, preparing = True, asking = None\<rparr>,
        [fetchPaper_request (pdfUrl_of p) (title p) (chat_paperInfo p) token])"
  by (simp add: mount_def initializePaper_begin_def initial_chat_def Let_def)

lemma ready_modal_eq:
  "ready_modal =
     \<lparr>chat = \<lparr>messages = [ready_message example_paper_a (Str ''metadata'')], input = [],
              loading = False, paperReady = True, processingPaper = False,
              sourceType = Str ''metadata''\<rparr>,
      preparing = False, asking = None\<rparr>"
proof -
  have "truthy (pdfUrl_of example_paper_a)" by (simp add: example_paper_defs)
  then show ?thesis
    by (simp add: ready_modal_def mount_url initializePaper_resume_def example_reply_defs
        initial_chat_def)
qed

text \<open>
  C8. When the \<open>fetchPaper\<close> call of \<open>initializePaper\<close> fails (the request is rejected,
  the response is not \<^verbatim>\<open>ok\<close>, or its body does not parse), the failure is reported: the
  message list becomes the single system notice that processing failed. No source type is
  recorded (\<open>sourceType\<close> keeps its value, \<^verbatim>\<open>null\<close> after mounting), so the paper is not
  presented as grounded; the chat is opened for questions (\<open>paperReady\<close>) under that notice
  and the spinner is cleared.
\<close>

theorem prepare_failure_is_reported:
  assumes "truthy (pdfUrl_of p)"
      and "fetchPaper_settle
             (respond (fetchPaper_request (pdfUrl_of p) (title p) (chat_paperInfo p) token))
           = Inl err"
  shows "initializePaper respond p token st =
           (st\<lparr>messages := [prepare_failed_notice], paperReady := True,
               processingPaper := False\<rparr>,
            [fetchPaper_request (pdfUrl_of p) (title p) (chat_paperInfo p) token])
       \<and> sourceType (fst (initializePaper respond p token st)) = sourceType st
       \<and> role prepare_failed_notice = ''system''"
  using assms
  by (simp add: initializePaper_def initializePaper_begin_def initializePaper_resume_def
      prepare_failed_notice_def plain_message_def)

theorem prepare_failure_is_reported_witness:
  "initializePaper (\<lambda>req. server_error) example_paper_a ''tok'' initial_chat =
     (\<lparr>messages = [prepare_failed_notice], input = [], loading = False, paperReady = True,
       processingPaper = False, sourceType = Null\<rparr>,
      [fetchPaper_request (Str ''http://x/a.pdf'') (Str ''A'') (chat_paperInfo example_paper_a)
         ''tok''])"
proof -
  have u: "pdfUrl_of example_paper_a = Str ''http://x/a.pdf''"
    by (simp add: example_paper_defs)
  have t: "title example_paper_a = Str ''A''"
    by (simp add: example_paper_defs)
  have h1: "truthy (pdfUrl_of example_paper_a)" by (simp add: u)
  have h2: "fetchPaper_settle
      ((\<lambda>req. server_error)
         (fetchPaper_request (pdfUrl_of example_paper_a) (title example_paper_a)
            (chat_paperInfo example_paper_a) ''tok''))
      = Inl (Error ''Failed to fetch paper'')"
    by (simp add: example_reply_defs)
  show ?thesis
    using prepare_failure_is_reported [OF h1 h2, where st = initial_chat]
    by (simp add: u t initial_chat_def)
qed

text \<open>
  C5. In a chat that is ready and idle, a question whose \<open>askQuestion\<close> call fails adds the
  user's message and one system notice of failure for that turn, clears \<open>loading\<close>, and
  changes nothing else: \<open>paperReady\<close> and \<open>sourceType\<close> are as before. A second question
  is then sent as a request of its own, and when its call succeeds the answer is appended.
  This holds for the form (\<open>handleSendMessage\<close>) and for the suggestion buttons
  (\<open>quickAsk\<close>).
\<close>

theorem generation_failure_is_per_turn:
  assumes "paperReady (chat m)" and "\<not> loading (chat m)"
      and "trim q1 \<noteq> []" and "trim q2 \<noteq> []"
      and "askQuestion_settle rfail = Inl err"
      and "askQuestion_settle rok = Inr response"
  shows "run p token m [Change q1, Submit, AskSettled rfail] =
           (m\<lparr>chat := (chat m)\<lparr>input := [],
                  messages := messages (chat m) @
                    [plain_message ''user'' (trim q1), send_failed_notice],
                  loading := False\<rparr>, asking := None\<rparr>,
            [askQuestion_request (pdfUrl_of p) (trim q1) (chat_paperInfo p) token])
       \<and> run p token m [Change q1, Submit, AskSettled rfail, Change q2, Submit, AskSettled rok] =
           (m\<lparr>chat := (chat m)\<lparr>input := [],
                  messages := messages (chat m) @
                    [plain_message ''user'' (trim q1), send_failed_notice,
                     plain_message ''user'' (trim q2), answer_message response],
                  loading := False\<rparr>, asking := None\<rparr>,
            [askQuestion_request (pdfUrl_of p) (trim q1) (chat_paperInfo p) token,
             askQuestion_request (pdfUrl_of p) (trim q2) (chat_paperInfo p) token])
       \<and> run p token m [QuickClick t1, AskSettled rfail] =
           (m\<lparr>chat := (chat m)\<lparr>input := [],
                  messages := messages (chat m) @
                    [plain_message ''user'' t1, quick_failed_notice],
                  loading := False\<rparr>, asking := None\<rparr>,
            [askQuestion_request (pdfUrl_of p) t1 (chat_paperInfo p) token])
       \<and> run p token m [QuickClick t1, AskSettled rfail, QuickClick t2, AskSettled rok] =
           (m\<lparr>chat := (chat m)\<lparr>input := [],
                  messages := messages (chat m) @
                    [plain_message ''user'' t1, quick_failed_notice,
                     plain_message ''user'' t2, quick_answer_message response],
                  loading := False\<rparr>, asking := None\<rparr>,
            [askQuestion_request (pdfUrl_of p) t1 (chat_paperInfo p) token,
             askQuestion_request (pdfUrl_of p) t2 (chat_paperInfo p) token])
       \<and> paperReady (chat (fst (run p token m [Change q1, Submit, AskSettled rfail])))
       \<and> paperReady (chat (fst (run p token m [QuickClick t1, AskSettled rfail])))
       \<and> sourceType (chat (fst (run p token m [Change q1, Submit, AskSettled rfail])))
           = sourceType (chat m)
       \<and> sourceType (chat (fst (run p token m [QuickClick t1, AskSettled rfail])))
           = sourceType (chat m)"
  using assms
  by (simp add: handleSendMessage_begin_def handleSendMessage_resume_def
        quickAsk_begin_def quickAsk_resume_def Let_def)

theorem generation_failure_is_per_turn_witness:
  "paperReady (chat ready_modal) \<and> \<not> loading (chat ready_modal)
   \<and> messages (chat (fst (run example_paper_a ''tok'' ready_modal
        [Change ''Why?'', Submit, AskSettled server_error,
         Change ''What?'', Submit, AskSettled answer_reply])))
     = [ready_message example_paper_a (Str ''metadata''),
        plain_message ''user'' ''Why?'', send_failed_notice,
        plain_message ''user'' ''What?'',
        \<lparr>role = ''assistant'', content = Str ''It studies X.'',
          msg_sourceType = Str ''metadata'', msg_citation = Undefined,
          msg_disclaimer = Str ''limited data available''\<rparr>]
   \<and> length (snd (run example_paper_a ''tok'' ready_modal
        [Change ''Why?'', Submit, AskSettled server_error,
         Change ''What?'', Submit, AskSettled answer_reply])) = 2
   \<and> paperReady (chat (fst (run example_paper_a ''tok'' ready_modal
        [Change ''Why?'', Submit, AskSettled server_error])))"
proof -
  have h1: "paperReady (chat ready_modal)" and h2: "\<not> loading (chat ready_modal)"
    by (simp_all add: ready_modal_eq)
  have t1: "trim ''Why?'' = ''Why?''" and t2: "trim ''What?'' = ''What?''"
    by (simp_all only: trim_examples)
  have h3: "trim ''Why?'' \<noteq> []" and h4: "trim ''What?'' \<noteq> []"
    by (simp_all add: t1 t2)
  have h5: "askQuestion_settle server_error = Inl (Error ''Failed to get answer'')"
    by (simp add: example_reply_defs)
  have h6: "askQuestion_settle answer_reply =
      Inr \<lparr>answer = Str ''It studies X.'', answer_source_type = Str ''metadata'',
           citation = Undefined, disclaimer = Str ''limited data available''\<rparr>"
    by (simp add: example_reply_defs)
  show ?thesis
    using generation_failure_is_per_turn [OF h1 h2 h3 h4 h5 h6, of example_paper_a "''tok''"]
    by (simp add: t1 t2 ready_modal_eq answer_message_def)
qed

lemma step_blocked:
  "\<not> paperReady (chat m) \<Longrightarrow> step p token m Submit = (m, [])"
  "\<not> paperReady (chat m) \<Longrightarrow> step p token m (QuickClick t) = (m, [])"
  by (simp_all add: handleSendMessage_begin_def quickAsk_begin_def)

lemma step_out_ready:
  "snd (step p token m ev) \<noteq> [] \<Longrightarrow> paperReady (chat m)"
  by (cases ev)
    (auto simp: handleSendMessage_begin_def quickAsk_begin_def Let_def
          split: if_splits option.splits asker.splits)

lemma run_snoc:
  "run p token m (evs @ [ev]) =
     (case run p token m evs of
        (m1, out1) \<Rightarrow> (case step p token m1 ev of (m2, out2) \<Rightarrow> (m2, out1 @ out2)))"
  by (induction evs arbitrary: m) (auto split: prod.splits)

lemma step_paperReady:
  "step p token m ev = (m', out) \<Longrightarrow> paperReady (chat m') \<Longrightarrow>
     paperReady (chat m) \<or> (preparing m \<and> is_prepare_settled ev)"
  by (cases ev)
    (auto simp: handleSendMessage_begin_def quickAsk_begin_def Let_def is_prepare_settled_def
          handleSendMessage_resume_def quickAsk_resume_def
          split: if_splits option.splits asker.splits sum.splits)

lemma step_preparing:
  "step p token m ev = (m', out) \<Longrightarrow> preparing m' \<Longrightarrow> preparing m"
  by (cases ev)
    (auto simp: handleSendMessage_begin_def quickAsk_begin_def Let_def
          split: if_splits option.splits asker.splits)

lemma step_preparing_settled:
  "step p token m ev = (m', out) \<Longrightarrow> is_prepare_settled ev \<Longrightarrow> \<not> preparing m'"
  by (cases ev) (auto simp: is_prepare_settled_def split: if_splits)

lemma mount_inv: "ready_inv (fst (mount p token)) []"
  by (simp add: ready_inv_def mount_def initializePaper_begin_def initial_chat_def Let_def)

lemma run_inv:
  "ready_inv m0 [] \<Longrightarrow> run p token m0 evs = (m, out) \<Longrightarrow> ready_inv m evs"
proof (induction evs arbitrary: m out rule: rev_induct)
  case Nil
  then show ?case by simp
next
  case (snoc ev evs)
  obtain m1 out1 where r1: "run p token m0 evs = (m1, out1)"
    by (cases "run p token m0 evs")
  obtain m2 out2 where s: "step p token m1 ev = (m2, out2)"
    by (cases "step p token m1 ev")
  from snoc.prems(2) r1 s have m: "m = m2" by (simp add: run_snoc)
  from snoc.IH [OF snoc.prems(1) r1] have inv1: "ready_inv m1 evs" .
  show ?case
    unfolding ready_inv_def m
  proof
    assume rdy: "paperReady (chat m2)"
    from step_paperReady [OF s rdy]
    show "\<not> preparing m2 \<and> list_ex is_prepare_settled (evs @ [ev])"
    proof
      assume "paperReady (chat m1)"
      with inv1 have "\<not> preparing m1" "list_ex is_prepare_settled evs"
        by (simp_all add: ready_inv_def)
      with step_preparing [OF s] show ?thesis by auto
    next
      assume "preparing m1 \<and> is_prepare_settled ev"
      with step_preparing_settled [OF s] show ?thesis by auto
    qed
  qed
qed

text \<open>
  C6, as the code has it. Take any run of events on the mounted chat and the state \<open>m\<close>
  it reaches. While the flag \<open>paperReady\<close> is false, submitting the form and clicking a
  suggestion do nothing: the state is unchanged and no request leaves. Whenever a step
  does send a request, the flag is set, no \<open>fetchPaper\<close> call is pending any more, and the
  reply to \<open>fetchPaper\<close> has arrived earlier in the run. So no question is sent before the
  preparation call has settled; the flag is set when it settles, whether it succeeded,
  with any source type, or failed.
\<close>

theorem no_question_before_ready:
  assumes "run p token (fst (mount p token)) evs = (m, out)"
  shows "(\<not> paperReady (chat m) \<longrightarrow>
            step p token m Submit = (m, []) \<and> step p token m (QuickClick t) = (m, []))
       \<and> (snd (step p token m ev) \<noteq> [] \<longrightarrow>
            paperReady (chat m) \<and> \<not> preparing m \<and> list_ex is_prepare_settled evs)"
proof -
  have inv: "ready_inv m evs" by (rule run_inv [OF mount_inv assms])
  show ?thesis
    using inv step_out_ready [of p token m ev] step_blocked [of m p token]
    by (auto simp: ready_inv_def)
qed

theorem no_question_before_ready_witness:
  "step example_paper_a ''tok''
     (fst (run example_paper_a ''tok'' (fst (mount example_paper_a ''tok'')) [Change ''What?'']))
     Submit
   = (fst (run example_paper_a ''tok'' (fst (mount example_paper_a ''tok'')) [Change ''What?'']),
      [])
   \<and> snd (step example_paper_a ''tok''
            (fst (run example_paper_a ''tok'' (fst (mount example_paper_a ''tok''))
                    [PrepareSettled metadata_reply]))
            (QuickClick ''Summarize this paper in 5 bullet points.'')) \<noteq> []
   \<and> list_ex is_prepare_settled [PrepareSettled metadata_reply]"
proof -
  let ?m0 = "fst (mount example_paper_a ''tok'')"
  have u: "truthy (pdfUrl_of example_paper_a)" by (simp add: example_paper_defs)
  have a: "run example_paper_a ''tok'' ?m0 [Change ''What?'']
      = (fst (run example_paper_a ''tok'' ?m0 [Change ''What?'']),
         snd (run example_paper_a ''tok'' ?m0 [Change ''What?'']))"
    by simp
  have b: "run example_paper_a ''tok'' ?m0 [PrepareSettled metadata_reply]
      = (fst (run example_paper_a ''tok'' ?m0 [PrepareSettled metadata_reply]),
         snd (run example_paper_a ''tok'' ?m0 [PrepareSettled metadata_reply]))"
    by simp
  have na: "\<not> paperReady (chat (fst (run example_paper_a ''tok'' ?m0 [Change ''What?''])))"
    by (simp add: mount_url [OF u] initial_chat_def)
  have sb: "snd (step example_paper_a ''tok''
            (fst (run example_paper_a ''tok'' ?m0 [PrepareSettled metadata_reply]))
            (QuickClick ''Summarize this paper in 5 bullet points.'')) \<noteq> []"
    by (simp add: mount_url [OF u] initial_chat_def initializePaper_resume_def
        example_reply_defs quickAsk_begin_def)
  show ?thesis
    using no_question_before_ready [OF a, of "''unused''" Submit] na
      no_question_before_ready [OF b, of "''unused''"
        "QuickClick ''Summarize this paper in 5 bullet points.''"] sb
    by simp
qed

text \<open>
  The claim C6 as it is stated fails in its last part, that a question is sent only for a
  paper that is ready or ready in the degraded way. When the \<open>fetchPaper\<close> call fails, the
  chat shows the notice that the paper could not be processed and records no source type,
  and the question typed next is sent all the same.
\<close>

theorem question_after_failed_prepare_counterexample:
  "fetchPaper_settle server_error = Inl (Error ''Failed to fetch paper'')
   \<and> run example_paper_a ''tok'' (fst (mount example_paper_a ''tok''))
        [PrepareSettled server_error, Change ''What?'', Submit]
     = (\<lparr>chat = \<lparr>messages = [prepare_failed_notice, plain_message ''user'' ''What?''],
                  input = [], loading = True, paperReady = True, processingPaper = False,
                  sourceType = Null\<rparr>,
         preparing = False, asking = Some BySend\<rparr>,
        [askQuestion_request (Str ''http://x/a.pdf'') ''What?''
           (chat_paperInfo example_paper_a) ''tok''])"
proof -
  have u: "pdfUrl_of example_paper_a = Str ''http://x/a.pdf''"
    by (simp add: example_paper_defs)
  then have "truthy (pdfUrl_of example_paper_a)" by simp
  then show ?thesis
    by (simp add: mount_url u initial_chat_def initializePaper_resume_def example_reply_defs
        handleSendMessage_begin_def trim_examples Let_def)
qed

lemma step_quiet:
  "quiet m \<Longrightarrow> snd (step p token m ev) = [] \<and> quiet (fst (step p token m ev))
     \<and> messages (chat (fst (step p token m ev))) = messages (chat m)
     \<and> sourceType (chat (fst (step p token m ev))) = sourceType (chat m)"
  by (cases ev) (auto simp: quiet_def handleSendMessage_begin_def quickAsk_begin_def)

lemma run_quiet:
  "quiet m \<Longrightarrow> snd (run p token m evs) = [] \<and> quiet (fst (run p token m evs))
     \<and> messages (chat (fst (run p token m evs))) = messages (chat m)
     \<and> sourceType (chat (fst (run p token m evs))) = sourceType (chat m)"
proof (induction evs arbitrary: m)
  case Nil
  then show ?case by simp
next
  case (Cons ev evs)
  from step_quiet [OF Cons.prems, of p token ev]
  have s: "snd (step p token m ev) = []" "quiet (fst (step p token m ev))"
    "messages (chat (fst (step p token m ev))) = messages (chat m)"
    "sourceType (chat (fst (step p token m ev))) = sourceType (chat m)"
    by simp_all
  from Cons.IH [OF s(2)] s show ?case
    by (auto split: prod.splits)
qed

text \<open>
  C2, as the code has it. A paper none of whose \<open>url\<close>, \<open>pdf_url\<close> and \<open>paper.url\<close> is
  usable, with or without an abstract, is never prepared: mounting sends no request, the
  only message is the system notice that no PDF URL was found, no source type is recorded,
  and along every run of events the chat stays not ready and sends nothing, so no question
  can be asked. When a URL is there and the \<open>fetchPaper\<close> call succeeds, whatever source
  type it reports (the unavailable one included), the chat becomes ready, records that
  source type, and a non-blank question is sent.
\<close>

theorem no_url_blocks_the_chat:
  "(\<not> truthy (pdfUrl_of p) \<longrightarrow>
      snd (mount p token) = []
    \<and> snd (run p token (fst (mount p token)) evs) = []
    \<and> \<not> paperReady (chat (fst (run p token (fst (mount p token)) evs)))
    \<and> messages (chat (fst (run p token (fst (mount p token)) evs))) = [no_url_notice]
    \<and> sourceType (chat (fst (run p token (fst (mount p token)) evs))) = Null)
   \<and> (truthy (pdfUrl_of p) \<and> fetchPaper_settle r = Inr result \<and> trim q \<noteq> [] \<longrightarrow>
      snd (mount p token) = [fetchPaper_request (pdfUrl_of p) (title p) (chat_paperInfo p) token]
    \<and> paperReady (chat (fst (run p token (fst (mount p token)) [PrepareSettled r])))
    \<and> sourceType (chat (fst (run p token (fst (mount p token)) [PrepareSettled r])))
        = source_type result
    \<and> snd (run p token (fst (mount p token)) [PrepareSettled r, Change q, Submit])
        = [askQuestion_request (pdfUrl_of p) (trim q) (chat_paperInfo p) token])"
proof (intro conjI impI)
  assume nourl: "\<not> truthy (pdfUrl_of p)"
  let ?m = "fst (mount p token)"
  have q: "quiet ?m"
    by (simp add: mount_no_url [OF nourl] quiet_def initial_chat_def)
  show "snd (mount p token) = []" by (simp add: mount_no_url [OF nourl])
  from run_quiet [OF q, of p token evs]
  show "snd (run p token ?m evs) = []"
    and "\<not> paperReady (chat (fst (run p token ?m evs)))"
    and "messages (chat (fst (run p token ?m evs))) = [no_url_notice]"
    and "sourceType (chat (fst (run p token ?m evs))) = Null"
    by (simp_all add: quiet_def mount_no_url [OF nourl] initial_chat_def)
next
  assume h: "truthy (pdfUrl_of p) \<and> fetchPaper_settle r = Inr result \<and> trim q \<noteq> []"
  then have m: "mount p token =
      (\<lparr>chat = initial_chat, preparing = True, asking = None\<rparr>,
       [fetchPaper_request (pdfUrl_of p) (title p) (chat_paperInfo p) token])"
    by (simp add: mount_url)
  show "snd (mount p token)
      = [fetchPaper_request (pdfUrl_of p) (title p) (chat_paperInfo p) token]"
    by (simp add: m)
  show "paperReady (chat (fst (run p token (fst (mount p token)) [PrepareSettled r])))"
    using h by (simp add: m initializePaper_resume_def)
  show "sourceType (chat (fst (run p token (fst (mount p token)) [PrepareSettled r])))
        = source_type result"
    using h by (simp add: m initializePaper_resume_def)
  show "snd (run p token (fst (mount p token)) [PrepareSettled r, Change q, Submit])
        = [askQuestion_request (pdfUrl_of p) (trim q) (chat_paperInfo p) token]"
    using h
    by (simp add: m initializePaper_resume_def handleSendMessage_begin_def initial_chat_def
        Let_def)
qed

theorem no_url_blocks_the_chat_witness:
  "\<not> truthy (pdfUrl_of example_untitled)
   \<and> snd (run example_untitled ''tok'' (fst (mount example_untitled ''tok''))
            [Change ''What?'', Submit]) = []
   \<and> truthy (pdfUrl_of example_paper_a)
   \<and> snd (run example_paper_a ''tok'' (fst (mount example_paper_a ''tok''))
            [PrepareSettled (Response True (Some \<lparr>source_type = Str ''unavailable''\<rparr>)),
             Change ''What?'', Submit])
     = [askQuestion_request (pdfUrl_of example_paper_a) (trim ''What?'')
          (chat_paperInfo example_paper_a) ''tok'']"
proof -
  have h1: "\<not> truthy (pdfUrl_of example_untitled)" by (simp add: example_paper_defs)
  have h2: "truthy (pdfUrl_of example_paper_a)" by (simp add: example_paper_defs)
  have h3: "fetchPaper_settle (Response True (Some \<lparr>source_type = Str ''unavailable''\<rparr>))
      = Inr \<lparr>source_type = Str ''unavailable''\<rparr>"
    by (simp add: example_reply_defs)
  have h4: "trim ''What?'' \<noteq> []" by (simp add: trim_examples)
  show ?thesis
    using no_url_blocks_the_chat [of example_untitled "''tok''" "[Change ''What?'', Submit]"
        server_error "\<lparr>source_type = Undefined\<rparr>" "[]"]
      no_url_blocks_the_chat [of example_paper_a "''tok''" "[]"
        "Response True (Some \<lparr>source_type = Str ''unavailable''\<rparr>)"
        "\<lparr>source_type = Str ''unavailable''\<rparr>" "''What?''"]
      h1 h2 h3 h4
    by simp
qed

text \<open>
  The claim C2 as the specification states it fails on a paper that has a title and nothing
  else (no URL, no abstract): no request is sent when the chat mounts, the chat shows the
  notice that the paper cannot be processed, and the question typed and submitted and the
  suggestion clicked afterwards send no request; the chat is still not ready.
\<close>

theorem unavailable_paper_counterexample:
  "pdfUrl_of example_untitled = Undefined \<and> abstract example_untitled = Undefined
   \<and> snd (mount example_untitled ''tok'') = []
   \<and> run example_untitled ''tok'' (fst (mount example_untitled ''tok''))
        [Change ''What does the paper study?'', Submit,
         QuickClick ''Summarize this paper in 5 bullet points.'']
     = (\<lparr>chat = \<lparr>messages = [no_url_notice], input = ''What does the paper study?'',
                  loading = False, paperReady = False, processingPaper = False,
                  sourceType = Null\<rparr>,
         preparing = False, asking = None\<rparr>, [])"
  by (simp add: example_paper_defs mount_def initializePaper_begin_def initial_chat_def Let_def
      handleSendMessage_begin_def quickAsk_begin_def)


section \<open>Comparing papers\<close>

lemma list_ex_settled:
  "list_ex isl (map (\<lambda>i. fetchPaper_settle (prepared i)) [0..<n])
     \<longleftrightarrow> (\<exists>i<n. isl (fetchPaper_settle (prepared i)))"
  by (auto simp: list_ex_iff)

lemmas selection_defs =
  one_selected_def two_selected_def same_paper_twice_def empty_dash_def
  toggleSelectForCompare_def select_key_def strict_eq_def valid_papers_def

lemma one_selected_valid: "valid_papers one_selected = [example_paper_a]"
  by (simp add: selection_defs example_paper_defs)

lemma two_selected_valid: "valid_papers two_selected = [example_paper_a, example_paper_b]"
  by (simp add: selection_defs example_paper_defs)

lemma same_paper_twice_valid:
  "valid_papers same_paper_twice = [example_paper_a, example_wrapped_a]"
  by (simp add: selection_defs example_paper_defs)

text \<open>
  C1, as the code has it. When fewer than two of the selected papers have a usable URL,
  \<open>runCompare\<close> returns at once: no request is sent and the state is the one it started
  with, so nothing, a failure included, is reported. With two or more such papers of
  different URLs it sends one \<open>fetchPaper\<close> request for each, in order; when every one of
  these calls succeeds it sends one \<open>comparePapers\<close> request with the URLs as identifiers
  and stores its result, and when a call fails it stores the text that the comparison
  failed. The selection is unchanged and \<open>compareLoading\<close> ends false.
\<close>

theorem runCompare_guard:
  "(length (valid_papers st) < 2 \<longrightarrow> runCompare q token prepared compared st = (st, []))
   \<and> (2 \<le> length (valid_papers st) \<and> distinct (map pdfUrl_of (valid_papers st)) \<longrightarrow>
        take (length (valid_papers st)) (snd (runCompare q token prepared compared st))
          = fetch_requests token (valid_papers st)
      \<and> \<not> compareLoading (fst (runCompare q token prepared compared st))
      \<and> selectedForCompare (fst (runCompare q token prepared compared st))
          = selectedForCompare st
      \<and> (if \<exists>i<length (valid_papers st). isl (fetchPaper_settle (prepared i))
         then runCompare q token prepared compared st =
                (st\<lparr>compareLoading := False, compareResult := Some comparison_failed\<rparr>,
                 fetch_requests token (valid_papers st))
         else runCompare q token prepared compared st =
                (st\<lparr>compareLoading := False,
                    compareResult :=
                      Some (case comparePapers_settle compared of
                              Inr result \<Rightarrow> result
                            | Inl e \<Rightarrow> comparison_failed)\<rparr>,
                 fetch_requests token (valid_papers st)
                   @ [compare_request q token (valid_papers st)])))"
  by (auto simp: runCompare_def Let_def list_ex_settled fetch_requests_def compare_request_def
      split: sum.splits)

theorem runCompare_guard_witness:
  "length (valid_papers one_selected) < 2
   \<and> runCompare ''methods'' ''tok'' every_prepared synthesis_reply one_selected
       = (one_selected, [])
   \<and> 2 \<le> length (valid_papers two_selected)
   \<and> distinct (map pdfUrl_of (valid_papers two_selected))
   \<and> runCompare ''methods'' ''tok'' every_prepared synthesis_reply two_selected
       = (two_selected\<lparr>compareLoading := False,
            compareResult := Some \<lparr>comparison = Str ''A studies X; B does not.''\<rparr>\<rparr>,
          fetch_requests ''tok'' [example_paper_a, example_paper_b]
            @ [compare_request ''methods'' ''tok'' [example_paper_a, example_paper_b]])"
proof -
  have h1: "length (valid_papers one_selected) < 2" by (simp add: one_selected_valid)
  have h2: "2 \<le> length (valid_papers two_selected)" by (simp add: two_selected_valid)
  have h3: "distinct (map pdfUrl_of (valid_papers two_selected))"
    by (simp add: two_selected_valid example_paper_defs)
  have ok: "\<not> (\<exists>i<length (valid_papers two_selected). isl (fetchPaper_settle (every_prepared i)))"
    by (simp add: every_prepared_def example_reply_defs)
  have c: "comparePapers_settle synthesis_reply
      = Inr \<lparr>comparison = Str ''A studies X; B does not.''\<rparr>"
    by (simp add: comparePapers_settle_def settle_def synthesis_reply_def)
  show ?thesis
    using runCompare_guard [of one_selected "''methods''" "''tok''" every_prepared synthesis_reply]
      runCompare_guard [of two_selected "''methods''" "''tok''" every_prepared synthesis_reply]
      h1 h2 h3 ok c
    by (simp add: two_selected_valid)
qed

text \<open>
  The claim C1 as the specification states it fails in two ways. With one paper selected
  \<open>runCompare\<close> sends nothing and changes nothing: \<open>compareResult\<close> is still \<^verbatim>\<open>null\<close>, and
  no failure has been reported. With a paper and an item that wraps the same paper
  selected, which \<open>toggleSelectForCompare\<close> keeps apart because their \<^verbatim>\<open>url || pdf_url\<close>
  differ, there is one distinct URL, and yet the comparison runs: two \<open>fetchPaper\<close>
  requests and one \<open>comparePapers\<close> request are sent and the result is stored.
\<close>

theorem compare_minimum_counterexample:
  "selectedForCompare one_selected = [example_paper_a]
   \<and> compareResult one_selected = None
   \<and> runCompare ''methods'' ''tok'' every_prepared synthesis_reply one_selected
       = (one_selected, [])
   \<and> selectedForCompare same_paper_twice = [example_paper_a, example_wrapped_a]
   \<and> remdups (map pdfUrl_of (valid_papers same_paper_twice)) = [Str ''http://x/a.pdf'']
   \<and> runCompare ''methods'' ''tok'' every_prepared synthesis_reply same_paper_twice
       = (same_paper_twice\<lparr>compareLoading := False,
            compareResult := Some \<lparr>comparison = Str ''A studies X; B does not.''\<rparr>\<rparr>,
          fetch_requests ''tok'' [example_paper_a, example_wrapped_a]
            @ [compare_request ''methods'' ''tok'' [example_paper_a, example_wrapped_a]])"
proof -
  have s1: "selectedForCompare one_selected = [example_paper_a]"
    and n1: "compareResult one_selected = None"
    by (simp_all add: selection_defs)
  have r1: "runCompare ''methods'' ''tok'' every_prepared synthesis_reply one_selected
       = (one_selected, [])"
    by (simp add: runCompare_def one_selected_valid)
  have s2: "selectedForCompare same_paper_twice = [example_paper_a, example_wrapped_a]"
    by (simp add: selection_defs example_paper_defs)
  have d2: "remdups (map pdfUrl_of (valid_papers same_paper_twice)) = [Str ''http://x/a.pdf'']"
    by (simp add: same_paper_twice_valid example_paper_defs)
  have r2: "runCompare ''methods'' ''tok'' every_prepared synthesis_reply same_paper_twice
       = (same_paper_twice\<lparr>compareLoading := False,
            compareResult := Some \<lparr>comparison = Str ''A studies X; B does not.''\<rparr>\<rparr>,
          fetch_requests ''tok'' [example_paper_a, example_wrapped_a]
            @ [compare_request ''methods'' ''tok'' [example_paper_a, example_wrapped_a]])"
    by (simp add: runCompare_def same_paper_twice_valid Let_def every_prepared_def
        example_reply_defs comparePapers_settle_def synthesis_reply_def
        fetch_requests_def compare_request_def upt_rec)
  from s1 n1 r1 s2 d2 r2 show ?thesis by simp
qed

section \<open>The engine and the chat together\<close>

lemma ensure_index_again:
  "ensure_index w pid sr mg = (res, mg1) \<Longrightarrow>
     ensure_index w pid sr mg1 = (res, mg1) \<and> builds mg1 \<le> Suc (builds mg)"
  by (auto simp: ensure_index_def Let_def split: option.splits if_splits)

lemma prepare_again:
  assumes p: "prepare w r mg = (res, mg1)"
  shows "prepare w r mg1 = (res, mg1) \<and> builds mg1 \<le> Suc (builds mg)"
proof -
  obtain x m where e: "ensure_index w (rec_paper_id (resolve w r)) (resolve w r) mg = (x, m)"
    by (cases "ensure_index w (rec_paper_id (resolve w r)) (resolve w r) mg")
  from p e have m: "m = mg1" by (auto simp: prepare_def Let_def split: sum.splits)
  from ensure_index_again [OF e] m
  have e2: "ensure_index w (rec_paper_id (resolve w r)) (resolve w r) mg1 = (x, mg1)"
    and b: "builds mg1 \<le> Suc (builds mg)" by simp_all
  from p e e2 m b show ?thesis by (auto simp: prepare_def Let_def split: sum.splits)
qed

lemma endpoint_again:
  assumes f: "fetch_paper_endpoint w (FetchPaper token pdfUrl paperTitle paperInfo) mg = (rep, mg2)"
  shows "fetch_paper_endpoint w (FetchPaper token pdfUrl paperTitle paperInfo) mg2 = (rep, mg2)
       \<and> builds mg2 \<le> Suc (builds mg)"
proof -
  obtain x m where p: "prepare w (reference_of pdfUrl paperInfo) mg = (x, m)"
    by (cases "prepare w (reference_of pdfUrl paperInfo) mg")
  from f p have m: "m = mg2"
    by (auto simp: fetch_paper_endpoint_def split: sum.splits)
  from prepare_again [OF p] m
  have p2: "prepare w (reference_of pdfUrl paperInfo) mg2 = (x, mg2)"
    and bb: "builds mg2 \<le> Suc (builds mg)" by simp_all
  from f p p2 bb show ?thesis
    by (auto simp: fetch_paper_endpoint_def split: sum.splits)
qed

lemmas example_world_defs =
  example_world_def fresh_manager_def unreachable_def example_primary_def example_paper_id_def
  example_chunker_def example_embed_def example_similarity_def example_generate_def
  reference_of_def text_of_def chat_paperInfo_def

lemma example_prepare_a:
  "fetch_paper_endpoint example_world
     (fetchPaper_request (pdfUrl_of example_paper_a) (title example_paper_a)
        (chat_paperInfo example_paper_a) ''tok'') fresh_manager
   = (metadata_reply,
      \<lparr>indices = [10 \<mapsto> degenerate_index Metadata_only (Some ''A Studies X.'')], builds = 0\<rparr>)"
  by (simp add: fetch_paper_endpoint_def fetchPaper_request_def prepare_def resolve_def
      ensure_index_def Let_def example_world_defs example_paper_defs metadata_reply_def
      degenerate_index_def)

lemma example_prepare_b:
  "prepare example_world
     (reference_of (pdfUrl_of example_paper_b) (chat_paperInfo example_paper_b)) fresh_manager
   = (Inr \<lparr>prep_source_type = Full_text_pdf_primary, prep_ready = True\<rparr>,
      \<lparr>indices = [20 \<mapsto> \<lparr>idx_source_type = Full_text_pdf_primary,
                           idx_entries = [(\<lparr>chunk_index = 0, chunk_text = ''Methods. Results.''\<rparr>,
                                           [17])],
                           idx_synthetic = None\<rparr>],
       builds = 1\<rparr>)"
  by (simp add: prepare_def resolve_def ensure_index_def Let_def example_world_defs
      example_paper_defs)

text \<open>
  C7, on the model of the engine. A second \<open>prepare\<close> for the same reference, in the state
  the first one left, returns what the first returned and leaves the manager as it is: the
  index map and the build counter do not change, so nothing is built a second time; the
  first call built at most once. The same holds for the endpoint that the front end's
  \<open>fetchPaper\<close> request reaches: the repeated request gets the same reply.
\<close>

theorem prepare_is_idempotent:
  "(prepare w r mg = (res, mg1) \<longrightarrow>
      prepare w r mg1 = (res, mg1) \<and> builds mg1 \<le> Suc (builds mg))
   \<and> (fetch_paper_endpoint w (fetchPaper_request pdfUrl paperTitle paperInfo token) mg
        = (rep, mg2) \<longrightarrow>
      fetch_paper_endpoint w (fetchPaper_request pdfUrl paperTitle paperInfo token) mg2
        = (rep, mg2)
      \<and> builds mg2 \<le> Suc (builds mg))"
  using prepare_again [of w r mg res mg1]
    endpoint_again [of w token pdfUrl paperTitle paperInfo mg rep mg2]
  by (simp add: fetchPaper_request_def)

theorem prepare_is_idempotent_witness:
  "prepare example_world
     (reference_of (pdfUrl_of example_paper_b) (chat_paperInfo example_paper_b))
     (snd (prepare example_world
             (reference_of (pdfUrl_of example_paper_b) (chat_paperInfo example_paper_b))
             fresh_manager))
   = prepare example_world
       (reference_of (pdfUrl_of example_paper_b) (chat_paperInfo example_paper_b))
       fresh_manager
   \<and> builds (snd (prepare example_world
       (reference_of (pdfUrl_of example_paper_b) (chat_paperInfo example_paper_b))
       fresh_manager)) = 1
   \<and> fetch_paper_endpoint example_world
       (fetchPaper_request (pdfUrl_of example_paper_a) (title example_paper_a)
          (chat_paperInfo example_paper_a) ''tok'')
       (snd (fetch_paper_endpoint example_world
          (fetchPaper_request (pdfUrl_of example_paper_a) (title example_paper_a)
             (chat_paperInfo example_paper_a) ''tok'') fresh_manager))
     = fetch_paper_endpoint example_world
         (fetchPaper_request (pdfUrl_of example_paper_a) (title example_paper_a)
            (chat_paperInfo example_paper_a) ''tok'') fresh_manager"
  using prepare_is_idempotent
      [of example_world
          "reference_of (pdfUrl_of example_paper_b) (chat_paperInfo example_paper_b)"
          fresh_manager
          "Inr \<lparr>prep_source_type = Full_text_pdf_primary, prep_ready = True\<rparr>"
          "\<lparr>indices = [20 \<mapsto> \<lparr>idx_source_type = Full_text_pdf_primary,
                           idx_entries = [(\<lparr>chunk_index = 0, chunk_text = ''Methods. Results.''\<rparr>,
                                           [17])],
                           idx_synthetic = None\<rparr>],
            builds = 1\<rparr>"
          "pdfUrl_of example_paper_a" "title example_paper_a" "chat_paperInfo example_paper_a"
          "''tok''" metadata_reply
          "\<lparr>indices = [10 \<mapsto> degenerate_index Metadata_only (Some ''A Studies X.'')],
            builds = 0\<rparr>"]
    example_prepare_a example_prepare_b
  by simp

lemma prepare_metadata:
  assumes "u \<noteq> []" and "a \<noteq> []"
      and "primary_text w u = None" and "secondary_text w u = None"
      and "indices mg (paper_id_of w u) = None"
      and "ref_source_url r = u" and "ref_abstract r = a"
  shows "prepare w r mg =
           (Inr \<lparr>prep_source_type = Metadata_only, prep_ready = True\<rparr>,
            mg\<lparr>indices := (indices mg)(paper_id_of w u \<mapsto>
                  degenerate_index Metadata_only (Some (ref_title r @ '' '' @ a)))\<rparr>)"
  using assms
  by (simp add: prepare_def resolve_def ensure_index_def Let_def degenerate_index_def)

lemma ask_degraded:
  assumes "indices mg pid = Some h" and "degraded h"
      and "ask_question_endpoint w (AskQuestion token pdfUrl q info) mg
             = Response ok (Some response)"
      and "paper_id_of w (text_of pdfUrl) = pid"
  shows "disclaimer response = Str ''limited data available'' \<and> citation response = Undefined"
  using assms
  by (auto simp: ask_question_endpoint_def engine_answer_question_def Let_def encode_answer_def
      split: option.splits sum.splits)

text \<open>
  C3, on the model of the engine. Take a paper with a URL and a non-empty abstract whose
  full text cannot be fetched from either source and that has no index yet. The reply to
  the chat's \<open>fetchPaper\<close> request carries the metadata-only source type, which the chat
  stores. Every answer that the engine then gives to a question of the chat about this
  paper has a disclaimer and no citation; the message that \<open>handleSendMessage\<close> or
  \<open>quickAsk\<close> appends for it has no citation, and its rendering shows the disclaimer box.
\<close>

theorem metadata_only_answers_carry_disclaimer:
  assumes "pdfUrl_of p = Str u" and "u \<noteq> []"
      and "abstract p = Str a" and "a \<noteq> []"
      and "primary_text w u = None" and "secondary_text w u = None"
      and "indices mg (paper_id_of w u) = None"
      and "fetch_paper_endpoint w
             (fetchPaper_request (pdfUrl_of p) (title p) (chat_paperInfo p) token) mg
           = (rep, mg1)"
      and "ask_question_endpoint w
             (askQuestion_request (pdfUrl_of p) q (chat_paperInfo p) token) mg1
           = Response ok (Some response)"
  shows "rep = Response True (Some \<lparr>source_type = Str (wire_name Metadata_only)\<rparr>)
       \<and> sourceType (initializePaper_resume p rep st) = Str (wire_name Metadata_only)
       \<and> truthy (disclaimer response) \<and> citation response = Undefined
       \<and> msg_citation (answer_message response) = Undefined
       \<and> msg_citation (quick_answer_message response) = Undefined
       \<and> DisclaimerBox (disclaimer response) \<in> set (render_message (answer_message response))
       \<and> DisclaimerBox (disclaimer response)
           \<in> set (render_message (quick_answer_message response))"
proof -
  let ?r = "reference_of (pdfUrl_of p) (chat_paperInfo p)"
  let ?h = "degenerate_index Metadata_only (Some (ref_title ?r @ '' '' @ a))"
  have ru: "ref_source_url ?r = u" "ref_abstract ?r = a"
    using assms(1-4) by (simp_all add: reference_of_def text_of_def chat_paperInfo_def)
  from prepare_metadata [OF assms(2) assms(4) assms(5) assms(6) assms(7) ru]
  have p: "prepare w ?r mg =
           (Inr \<lparr>prep_source_type = Metadata_only, prep_ready = True\<rparr>,
            mg\<lparr>indices := (indices mg)(paper_id_of w u \<mapsto> ?h)\<rparr>)" .
  from assms(8) p
  have rep: "rep = Response True (Some \<lparr>source_type = Str ''metadata''\<rparr>)"
    and mg1: "mg1 = mg\<lparr>indices := (indices mg)(paper_id_of w u \<mapsto> ?h)\<rparr>"
    by (simp_all add: fetch_paper_endpoint_def fetchPaper_request_def)
  have idx: "indices mg1 (paper_id_of w u) = Some ?h"
    by (simp add: mg1)
  have deg: "degraded ?h"
    by (simp add: degraded_def degenerate_index_def)
  have pid: "paper_id_of w (text_of (pdfUrl_of p)) = paper_id_of w u"
    using assms(1,2) by (simp add: text_of_def)
  from ask_degraded [OF idx deg assms(9) [unfolded askQuestion_request_def] pid]
  have d: "disclaimer response = Str ''limited data available''"
    and c: "citation response = Undefined"
    by simp_all
  show ?thesis
    using rep d c
    by (simp add: initializePaper_resume_def fetchPaper_settle_def settle_def
        answer_message_def quick_answer_message_def render_message_def)
qed

theorem metadata_only_answers_carry_disclaimer_witness:
  "sourceType (initializePaper_resume example_paper_a metadata_reply initial_chat)
     = Str ''metadata''
   \<and> ask_question_endpoint example_world
       (askQuestion_request (pdfUrl_of example_paper_a) ''What does the paper study?''
          (chat_paperInfo example_paper_a) ''tok'')
       \<lparr>indices = [10 \<mapsto> degenerate_index Metadata_only (Some ''A Studies X.'')], builds = 0\<rparr>
     = Response True
         (Some \<lparr>answer = Str ''It says: A Studies X.What does the paper study?'',
                answer_source_type = Str ''metadata'', citation = Undefined,
                disclaimer = Str ''limited data available''\<rparr>)
   \<and> render_message
       (answer_message
          \<lparr>answer = Str ''It says: A Studies X.What does the paper study?'',
           answer_source_type = Str ''metadata'', citation = Undefined,
           disclaimer = Str ''limited data available''\<rparr>)
     = [AssistantHeader, Content (Str ''It says: A Studies X.What does the paper study?''),
        DisclaimerBox (Str ''limited data available'')]"
proof -
  have h1: "pdfUrl_of example_paper_a = Str ''http://x/a.pdf''"
    and h3: "abstract example_paper_a = Str ''Studies X.''"
    by (simp_all add: example_paper_defs)
  have h2: "''http://x/a.pdf'' \<noteq> []" and h4: "''Studies X.'' \<noteq> []" by simp_all
  have h5: "primary_text example_world ''http://x/a.pdf'' = None"
    and h6: "secondary_text example_world ''http://x/a.pdf'' = None"
    and h7: "indices fresh_manager (paper_id_of example_world ''http://x/a.pdf'') = None"
    by (simp_all add: example_world_defs)
  have h9: "ask_question_endpoint example_world
       (askQuestion_request (pdfUrl_of example_paper_a) ''What does the paper study?''
          (chat_paperInfo example_paper_a) ''tok'')
       \<lparr>indices = [10 \<mapsto> degenerate_index Metadata_only (Some ''A Studies X.'')], builds = 0\<rparr>
     = Response True
         (Some \<lparr>answer = Str ''It says: A Studies X.What does the paper study?'',
                answer_source_type = Str ''metadata'', citation = Undefined,
                disclaimer = Str ''limited data available''\<rparr>)"
    by (simp add: ask_question_endpoint_def askQuestion_request_def engine_answer_question_def
        query_index_def degraded_def degenerate_index_def encode_answer_def Let_def
        example_world_defs example_paper_defs)
  show ?thesis
    using metadata_only_answers_carry_disclaimer
        [OF h1 h2 h3 h4 h5 h6 h7 example_prepare_a h9, where st = initial_chat] h9
    by (simp add: metadata_reply_def answer_message_def render_message_def)
qed

lemma sourceMsg_cases: "\<exists>t. sourceMsg v = sourceMsg (Str (wire_name t))"
proof -
  consider "v = Str ''semantic_scholar_pdf''" | "v = Str ''arxiv_pdf''" | "v = Str ''metadata''"
    | "v \<noteq> Str ''semantic_scholar_pdf''" "v \<noteq> Str ''arxiv_pdf''" "v \<noteq> Str ''metadata''"
    by blast
  then show ?thesis
  proof cases
    case 1
    then show ?thesis by (intro exI [of _ Full_text_pdf_primary]) simp
  next
    case 2
    then show ?thesis by (intro exI [of _ Full_text_pdf_secondary]) simp
  next
    case 3
    then show ?thesis by (intro exI [of _ Metadata_only]) simp
  next
    case 4
    then show ?thesis
      by (intro exI [of _ Unavailable]) (simp add: sourceMsg_def strict_eq_def)
  qed
qed

lemma sourceMsg_inj:
  "sourceMsg (Str (wire_name t)) = sourceMsg (Str (wire_name t')) \<Longrightarrow> t = t'"
  by (cases t; cases t') (simp_all add: sourceMsg_def strict_eq_def)

lemma sourceMsg_fallback:
  "\<forall>t. v \<noteq> Str (wire_name t) \<Longrightarrow> sourceMsg v = sourceMsg (Str (wire_name Unavailable))"
proof -
  assume a: "\<forall>t. v \<noteq> Str (wire_name t)"
  from a [rule_format, of Full_text_pdf_primary] a [rule_format, of Full_text_pdf_secondary]
    a [rule_format, of Metadata_only]
  show ?thesis by (simp add: sourceMsg_def strict_eq_def)
qed

lemma endpoint_tag:
  "fetch_paper_endpoint w req mg = (Response ok (Some result), mg1) \<Longrightarrow>
     ok \<and> (\<exists>t. source_type result = Str (wire_name t))"
  by (auto simp: fetch_paper_endpoint_def split: request.splits sum.splits prod.splits)

text \<open>
  C4, on the model of the engine. The source type in a reply of the prepare endpoint is the
  tag of one of the four source types, and the chat stores it as it comes. The chain of
  comparisons in \<open>initializePaper\<close> has four outcomes and no more: every value at all falls
  into the outcome of one of the four source types, the four source types fall into four
  different outcomes, and a value that is none of the four tags is treated as unavailable
  (the fallback).
\<close>

theorem source_types_handled:
  "(fetch_paper_endpoint w req mg = (Response ok (Some result), mg1) \<longrightarrow>
      (\<exists>t. source_type result = Str (wire_name t))
    \<and> sourceType (initializePaper_resume p (Response ok (Some result)) st) = source_type result)
   \<and> (\<exists>t. sourceMsg v = sourceMsg (Str (wire_name t)))
   \<and> (sourceMsg (Str (wire_name t1)) = sourceMsg (Str (wire_name t2)) \<longrightarrow> t1 = t2)
   \<and> ((\<forall>t. v \<noteq> Str (wire_name t)) \<longrightarrow> sourceMsg v = sourceMsg (Str (wire_name Unavailable)))"
proof (intro conjI impI)
  assume e: "fetch_paper_endpoint w req mg = (Response ok (Some result), mg1)"
  from endpoint_tag [OF e] show "\<exists>t. source_type result = Str (wire_name t)" by simp
  from endpoint_tag [OF e]
  show "sourceType (initializePaper_resume p (Response ok (Some result)) st) = source_type result"
    by (simp add: initializePaper_resume_def fetchPaper_settle_def settle_def)
next
  show "\<exists>t. sourceMsg v = sourceMsg (Str (wire_name t))" by (rule sourceMsg_cases)
next
  assume "sourceMsg (Str (wire_name t1)) = sourceMsg (Str (wire_name t2))"
  then show "t1 = t2" by (rule sourceMsg_inj)
next
  assume "\<forall>t. v \<noteq> Str (wire_name t)"
  then show "sourceMsg v = sourceMsg (Str (wire_name Unavailable))" by (rule sourceMsg_fallback)
qed

theorem source_types_handled_witness:
  "source_type \<lparr>source_type = Str ''metadata''\<rparr> = Str (wire_name Metadata_only)
   \<and> sourceType (initializePaper_resume example_paper_a metadata_reply initial_chat)
       = Str ''metadata''
   \<and> sourceMsg (Str ''pdf'') = sourceMsg (Str ''unavailable'')
   \<and> sourceMsg (Str ''metadata'') \<noteq> sourceMsg (Str ''unavailable'')"
proof -
  have e: "fetch_paper_endpoint example_world
     (fetchPaper_request (pdfUrl_of example_paper_a) (title example_paper_a)
        (chat_paperInfo example_paper_a) ''tok'') fresh_manager
   = (Response True (Some \<lparr>source_type = Str ''metadata''\<rparr>),
      \<lparr>indices = [10 \<mapsto> degenerate_index Metadata_only (Some ''A Studies X.'')], builds = 0\<rparr>)"
    using example_prepare_a by (simp add: metadata_reply_def)
  have n: "\<forall>t. Str ''pdf'' \<noteq> Str (wire_name t)"
  proof
    fix t show "Str ''pdf'' \<noteq> Str (wire_name t)" by (cases t) simp_all
  qed
  have d: "Metadata_only \<noteq> Unavailable" by simp
  show ?thesis
    using source_types_handled [of example_world
        "fetchPaper_request (pdfUrl_of example_paper_a) (title example_paper_a)
           (chat_paperInfo example_paper_a) ''tok''"
        fresh_manager True "\<lparr>source_type = Str ''metadata''\<rparr>"
        "\<lparr>indices = [10 \<mapsto> degenerate_index Metadata_only (Some ''A Studies X.'')], builds = 0\<rparr>"
        example_paper_a initial_chat "Str ''pdf''" Metadata_only Unavailable]
      e n d
    by (auto simp: metadata_reply_def)
qed


end
